theory Spec2Isabelle
  imports Main
begin

section \<open>Python values: exceptions, truthiness, string formatting\<close>

text \<open>
  An exception (of a class that derives from \<^verbatim>\<open>Exception\<close>) is a value: its class
  name and the text that \<^verbatim>\<open>str(e)\<close> gives. A function that may raise returns
  \<open>exn + 'a\<close>, with \<open>Inl\<close> for the exception.
\<close>

datatype exn = Exn (exn_class: string) (exn_str: string)

text \<open>Truthiness of an optional string and of an optional integer (\<^verbatim>\<open>if x:\<close>).\<close>

fun truthy_str :: "string option \<Rightarrow> bool" where
  "truthy_str None = False"
| "truthy_str (Some s) = (s \<noteq> [])"

fun truthy_int :: "int option \<Rightarrow> bool" where
  "truthy_int None = False"
| "truthy_int (Some n) = (n \<noteq> 0)"

text \<open>\<^verbatim>\<open>str(n)\<close> for an integer: decimal digits, a minus sign for negatives.\<close>

definition digit_char :: "nat \<Rightarrow> char" where
  "digit_char d = ''0123456789'' ! d"

fun str_nat :: "nat \<Rightarrow> string" where
  "str_nat n = (if n < 10 then [digit_char n]
                else str_nat (n div 10) @ [digit_char (n mod 10)])"

declare str_nat.simps [simp del]

definition str_int :: "int \<Rightarrow> string" where
  "str_int i = (if i < 0 then CHR ''-'' # str_nat (nat (- i)) else str_nat (nat i))"

text \<open>\<^verbatim>\<open>sep.join(parts)\<close>.\<close>

fun join :: "string \<Rightarrow> string list \<Rightarrow> string" where
  "join sep [] = []"
| "join sep [x] = x"
| "join sep (x # y # ys) = x @ sep @ join sep (y # ys)"

text \<open>\<^verbatim>\<open>needle in text\<close> for strings: some suffix of the text starts with the needle.\<close>

fun starts_with :: "string \<Rightarrow> string \<Rightarrow> bool" where
  "starts_with [] t = True"
| "starts_with (c # cs) [] = False"
| "starts_with (c # cs) (d # ds) = (c = d \<and> starts_with cs ds)"

fun contains :: "string \<Rightarrow> string \<Rightarrow> bool" where
  "contains needle [] = starts_with needle []"
| "contains needle (d # ds) = (starts_with needle (d # ds) \<or> contains needle ds)"


section \<open>The search backend, as the tools use it\<close>

text \<open>
  One metadata mapping of a search hit. \<open>None\<close> is an absent key
  (\<^verbatim>\<open>meta.get("course_title", "unknown")\<close>, \<^verbatim>\<open>meta.get("lesson_number")\<close>).
\<close>

record meta =
  course_title :: "string option"
  lesson_number :: "int option"

record search_results =
  documents :: "string list"
  metadata :: "meta list"
  error :: "string option"

text \<open>
  Modelled from the spec: \<^verbatim>\<open>SearchResults.is_empty\<close> of the vector store module, which is
  not among the sources; the spec's "results are empty" is "no documents".
\<close>

definition is_empty :: "search_results \<Rightarrow> bool" where
  "is_empty results = (documents results = [])"

text \<open>
  The vector store is outside the sources; the tools see it through these operations,
  which are taken as parameters.
\<close>

text \<open>
  What \<^verbatim>\<open>course_catalog.get(ids=[...])\<close> returns: \<open>None\<close> for a false result, the
  \<^verbatim>\<open>"metadatas"\<close> entry (which may be \<^verbatim>\<open>None\<close>), each element a string-valued mapping
  or \<^verbatim>\<open>None\<close>.
\<close>

record catalog_result =
  metadatas :: "(string \<times> string) list option list option"

record store =
  search :: "string \<Rightarrow> string option \<Rightarrow> int option \<Rightarrow> search_results"
  get_lesson_link :: "string \<Rightarrow> int \<Rightarrow> string option"
  resolve_course_name :: "string \<Rightarrow> string option"
  course_catalog_get :: "string \<Rightarrow> exn + catalog_result option"

text \<open>A citation: \<^verbatim>\<open>{"title": ..., "url": ...}\<close>.\<close>

record source =
  title :: string
  url :: "string option"


section \<open>CourseSearchTool\<close>

text \<open>
  The state of one pass of the loop of \<^verbatim>\<open>_format_results\<close>: the three local
  collections, and the calls made to \<^verbatim>\<open>store.get_lesson_link\<close> so far.
\<close>

record fmt_state =
  formatted :: "string list"
  sources :: "source list"
  seen_titles :: "string set"
  link_calls :: "(string \<times> int) list"

definition header_of :: "meta \<Rightarrow> string" where
  "header_of m =
     (let course_title = (case course_title m of None \<Rightarrow> ''unknown'' | Some t \<Rightarrow> t);
          header = ''['' @ course_title;
          header = (case lesson_number m of None \<Rightarrow> header
                    | Some n \<Rightarrow> header @ '' - Lesson '' @ str_int n)
      in header @ '']'')"

definition source_title_of :: "meta \<Rightarrow> string" where
  "source_title_of m =
     (let course_title = (case course_title m of None \<Rightarrow> ''unknown'' | Some t \<Rightarrow> t)
      in case lesson_number m of None \<Rightarrow> course_title
         | Some n \<Rightarrow> course_title @ '' - Lesson '' @ str_int n)"

definition format_step :: "store \<Rightarrow> fmt_state \<Rightarrow> string \<times> meta \<Rightarrow> fmt_state" where
  "format_step st s dm =
     (let doc = fst dm; m = snd dm;
          course_title = (case course_title m of None \<Rightarrow> ''unknown'' | Some t \<Rightarrow> t);
          lesson_num = lesson_number m;
          header = header_of m;
          source_title = source_title_of m;
          s = (if source_title \<notin> seen_titles s then
                 (case lesson_num of
                    None \<Rightarrow>
                      s\<lparr>seen_titles := insert source_title (seen_titles s),
                        sources := sources s @ [\<lparr>title = source_title, url = None\<rparr>]\<rparr>
                  | Some n \<Rightarrow>
                      s\<lparr>seen_titles := insert source_title (seen_titles s),
                        link_calls := link_calls s @ [(course_title, n)],
                        sources := sources s @
                          [\<lparr>title = source_title, url = get_lesson_link st course_title n\<rparr>]\<rparr>)
               else s)
      in s\<lparr>formatted := formatted s @ [header @ ''\<newline>'' @ doc]\<rparr>)"

fun format_loop :: "store \<Rightarrow> (string \<times> meta) list \<Rightarrow> fmt_state \<Rightarrow> fmt_state" where
  "format_loop st [] s = s"
| "format_loop st (dm # rest) s = format_loop st rest (format_step st s dm)"

definition fmt_init :: fmt_state where
  "fmt_init = \<lparr>formatted = [], sources = [], seen_titles = {}, link_calls = []\<rparr>"

text \<open>
  \<^verbatim>\<open>_format_results\<close> returns the text and overwrites \<^verbatim>\<open>self.last_sources\<close>; the
  model returns the text, the new \<^verbatim>\<open>last_sources\<close> and the link lookups it made.
\<close>

definition CourseSearchTool_format_results ::
  "store \<Rightarrow> search_results \<Rightarrow> string \<times> source list \<times> (string \<times> int) list" where
  "CourseSearchTool_format_results st results =
     (let s = format_loop st (zip (documents results) (metadata results)) fmt_init
      in (join ''\<newline>\<newline>'' (formatted s), sources s, link_calls s))"

text \<open>
  \<^verbatim>\<open>execute\<close>, with the tool's \<^verbatim>\<open>last_sources\<close> passed in and returned: the two early
  returns leave it as it was.
\<close>

definition CourseSearchTool_execute ::
  "store \<Rightarrow> source list \<Rightarrow> string \<Rightarrow> string option \<Rightarrow> int option
     \<Rightarrow> string \<times> source list \<times> (string \<times> int) list" where
  "CourseSearchTool_execute st last_sources query course_name lesson_number' =
     (let results = search st query course_name lesson_number'
      in if truthy_str (error results) then (the (error results), last_sources, [])
         else if is_empty results then
           (let filter_info = [];
                filter_info = (if truthy_str course_name
                               then filter_info @ '' in course '' @ [CHR 0x27] @ the course_name
                                      @ [CHR 0x27]
                               else filter_info);
                filter_info = (if truthy_int lesson_number'
                               then filter_info @ '' in lesson '' @ str_int (the lesson_number')
                               else filter_info)
            in (''No relevant content found'' @ filter_info @ ''.'', last_sources, []))
         else CourseSearchTool_format_results st results)"

section \<open>Decoded JSON values\<close>

text \<open>
  What \<^verbatim>\<open>json.loads\<close> returns, and what a tool-call block carries as its input. A float
  is kept as the text Python prints for it.
\<close>

datatype pyval =
    PNone
  | PBool bool
  | PInt int
  | PFloat string
  | PStr string
  | PList "pyval list"
  | PDict "(string \<times> pyval) list"

type_synonym kwargs = "(string \<times> pyval) list"

text \<open>\<^verbatim>\<open>not v\<close>.\<close>

fun falsy :: "pyval \<Rightarrow> bool" where
  "falsy PNone = True"
| "falsy (PBool b) = (\<not> b)"
| "falsy (PInt i) = (i = 0)"
| "falsy (PFloat s) = (s = ''0.0'' \<or> s = ''-0.0'')"
| "falsy (PStr s) = (s = [])"
| "falsy (PList xs) = (xs = [])"
| "falsy (PDict kvs) = (kvs = [])"

text \<open>
  \<^verbatim>\<open>repr(v)\<close> and \<^verbatim>\<open>str(v)\<close>, as an f-string uses them. The quoting of a string by
  \<^verbatim>\<open>repr\<close> is Python's own and is taken as the parameter \<open>repr_str\<close>.
\<close>

primrec py_repr :: "(string \<Rightarrow> string) \<Rightarrow> pyval \<Rightarrow> string" where
  "py_repr repr_str PNone = ''None''"
| "py_repr repr_str (PBool b) = (if b then ''True'' else ''False'')"
| "py_repr repr_str (PInt i) = str_int i"
| "py_repr repr_str (PFloat s) = s"
| "py_repr repr_str (PStr s) = repr_str s"
| "py_repr repr_str (PList xs) = ''['' @ join '', '' (map (py_repr repr_str) xs) @ '']''"
| "py_repr repr_str (PDict kvs) =
     ''{'' @ join '', '' (map (\<lambda>kv. repr_str (fst kv) @ '': '' @ snd kv)
                             (map (map_prod id (py_repr repr_str)) kvs)) @ ''}''"

definition py_str :: "(string \<Rightarrow> string) \<Rightarrow> pyval \<Rightarrow> string" where
  "py_str repr_str v = (case v of PStr s \<Rightarrow> s | _ \<Rightarrow> py_repr repr_str v)"

fun type_name :: "pyval \<Rightarrow> string" where
  "type_name PNone = ''NoneType''"
| "type_name (PBool b) = ''bool''"
| "type_name (PInt i) = ''int''"
| "type_name (PFloat s) = ''float''"
| "type_name (PStr s) = ''str''"
| "type_name (PList xs) = ''list''"
| "type_name (PDict kvs) = ''dict''"

text \<open>\<^verbatim>\<open>len(v)\<close> raises TypeError on a value that has no length.\<close>

fun py_len :: "pyval \<Rightarrow> exn + nat" where
  "py_len (PStr s) = Inr (length s)"
| "py_len (PList xs) = Inr (length xs)"
| "py_len (PDict kvs) = Inr (length kvs)"
| "py_len v = Inl (Exn ''TypeError''
     (''object of type '' @ [CHR 0x27] @ type_name v @ [CHR 0x27] @ '' has no len()''))"

text \<open>
  The values a \<^verbatim>\<open>for\<close> loop visits: the elements of a list, the keys of a mapping, the
  characters of a string. It is only used on a value that has a length.
\<close>

fun py_iter :: "pyval \<Rightarrow> pyval list" where
  "py_iter (PList xs) = xs"
| "py_iter (PDict kvs) = map (\<lambda>kv. PStr (fst kv)) kvs"
| "py_iter (PStr s) = map (\<lambda>c. PStr [c]) s"
| "py_iter v = []"

text \<open>\<^verbatim>\<open>v.get(key, default)\<close>: only a mapping has the method.\<close>

fun py_get :: "pyval \<Rightarrow> string \<Rightarrow> pyval \<Rightarrow> exn + pyval" where
  "py_get (PDict kvs) key dflt = Inr (case map_of kvs key of None \<Rightarrow> dflt | Some v \<Rightarrow> v)"
| "py_get v key dflt = Inl (Exn ''AttributeError''
     ([CHR 0x27] @ type_name v @ [CHR 0x27] @ '' object has no attribute ''
        @ [CHR 0x27] @ ''get'' @ [CHR 0x27]))"


section \<open>CourseOutlineTool\<close>

text \<open>The loop over the lessons of \<^verbatim>\<open>_format_outline\<close>; it stops at the first exception.\<close>

fun lesson_lines :: "(string \<Rightarrow> string) \<Rightarrow> pyval list \<Rightarrow> string list \<Rightarrow> exn + string list" where
  "lesson_lines repr_str [] lines = Inr lines"
| "lesson_lines repr_str (lesson # rest) lines =
     (case py_get lesson ''lesson_number'' (PStr ''?'') of
        Inl e \<Rightarrow> Inl e
      | Inr lesson_num \<Rightarrow>
          (case py_get lesson ''lesson_title'' (PStr ''Untitled'') of
             Inl e \<Rightarrow> Inl e
           | Inr lesson_title \<Rightarrow>
               lesson_lines repr_str rest
                 (lines @ [''  '' @ py_str repr_str lesson_num @ ''. ''
                             @ py_str repr_str lesson_title])))"

text \<open>
  \<^verbatim>\<open>_format_outline\<close>: the text, or the exception raised on the way, and the tool's
  \<^verbatim>\<open>last_sources\<close>, which is only assigned after the loop.
\<close>

definition CourseOutlineTool_format_outline ::
  "(string \<Rightarrow> string) \<Rightarrow> source list \<Rightarrow> string \<Rightarrow> string option \<Rightarrow> pyval
     \<Rightarrow> (exn + string) \<times> source list" where
  "CourseOutlineTool_format_outline repr_str last_sources title' course_link lessons =
     (let lines = [''**'' @ title' @ ''**''];
          lines = (if truthy_str course_link
                   then lines @ [''Course Link: '' @ the course_link] else lines);
          lines = lines @ [[]];
          lines_or_exn =
            (if falsy lessons then Inr (lines @ [''This course has no lessons listed.''])
             else (case py_len lessons of
                     Inl e \<Rightarrow> Inl e
                   | Inr n \<Rightarrow>
                       lesson_lines repr_str (py_iter lessons)
                         (lines @ [''**Lessons ('' @ str_nat n @ '' total):**''])))
      in case lines_or_exn of
           Inl e \<Rightarrow> (Inl e, last_sources)
         | Inr lines \<Rightarrow> (Inr (join ''\<newline>'' lines), [\<lparr>title = title', url = course_link\<rparr>]))"

text \<open>
  The test \<^verbatim>\<open>not results or not results["metadatas"] or not results["metadatas"][0]\<close>:
  the first metadata mapping when all three are true values.
\<close>

definition first_metadata :: "catalog_result option \<Rightarrow> (string \<times> string) list option" where
  "first_metadata results =
     (case results of
        None \<Rightarrow> None
      | Some r \<Rightarrow>
          (case metadatas r of
             None \<Rightarrow> None
           | Some [] \<Rightarrow> None
           | Some (None # _) \<Rightarrow> None
           | Some (Some m # _) \<Rightarrow> (if m = [] then None else Some m)))"

text \<open>
  \<^verbatim>\<open>execute\<close>. \<open>json_loads\<close> is \<^verbatim>\<open>json.loads\<close>, with \<open>None\<close> for JSONDecodeError, the
  one exception the code catches there.
\<close>

definition CourseOutlineTool_execute ::
  "(string \<Rightarrow> pyval option) \<Rightarrow> (string \<Rightarrow> string) \<Rightarrow> store \<Rightarrow> source list \<Rightarrow> string
     \<Rightarrow> (exn + string) \<times> source list" where
  "CourseOutlineTool_execute json_loads repr_str st last_sources course_title' =
     (let resolved_title = resolve_course_name st course_title'
      in if \<not> truthy_str resolved_title then
           (Inr (''No course found matching '' @ [CHR 0x27] @ course_title' @ [CHR 0x27]
                   @ ''. Please try a different course name.''), last_sources)
         else
           (let resolved = the resolved_title
            in case course_catalog_get st resolved of
                 Inl e \<Rightarrow> (Inr (''Error retrieving course data: '' @ exn_str e), last_sources)
               | Inr results \<Rightarrow>
                   (case first_metadata results of
                      None \<Rightarrow>
                        (Inr (''Course '' @ [CHR 0x27] @ resolved @ [CHR 0x27]
                                @ '' found but metadata unavailable.''), last_sources)
                    | Some metadata' \<Rightarrow>
                        (let title = (case map_of metadata' ''title'' of
                                        None \<Rightarrow> resolved | Some t \<Rightarrow> t);
                             course_link = map_of metadata' ''course_link'';
                             lessons_json = (case map_of metadata' ''lessons_json'' of
                                               None \<Rightarrow> ''[]'' | Some j \<Rightarrow> j);
                             lessons = (case json_loads lessons_json of
                                          None \<Rightarrow> PList [] | Some v \<Rightarrow> v)
                         in CourseOutlineTool_format_outline repr_str last_sources
                              title course_link lessons))))"


section \<open>ToolManager\<close>

record param_spec =
  param_type :: string
  param_description :: string

record input_schema =
  schema_type :: string
  properties :: "(string \<times> param_spec) list"
  required :: "string list"

text \<open>A tool definition; \<open>name = None\<close> is a definition without the key.\<close>

record tool_def =
  name :: "string option"
  description :: string
  input_schema :: input_schema

definition CourseSearchTool_get_tool_definition :: tool_def where
  "CourseSearchTool_get_tool_definition =
     \<lparr>name = Some ''search_course_content'',
      description =
        ''Search course materials with smart course name matching and lesson filtering'',
      input_schema =
        \<lparr>schema_type = ''object'',
         properties =
           [(''query'', \<lparr>param_type = ''string'',
               param_description = ''What to search for in the course content''\<rparr>),
            (''course_name'', \<lparr>param_type = ''string'',
               param_description =
                 ''Course title (partial matches work, e.g. 'MCP', 'Introduction')''\<rparr>),
            (''lesson_number'', \<lparr>param_type = ''integer'',
               param_description =
                 ''Specific lesson number to search within (e.g. 1, 2, 3)''\<rparr>)],
         required = [''query'']\<rparr>\<rparr>"

definition CourseOutlineTool_get_tool_definition :: tool_def where
  "CourseOutlineTool_get_tool_definition =
     \<lparr>name = Some ''get_course_outline'',
      description =
        ''Get the complete outline of a course including its title, course link, and list of all lessons with their numbers and titles. Use this when users ask about course structure, what lessons are in a course, or want an overview of course content.'',
      input_schema =
        \<lparr>schema_type = ''object'',
         properties =
           [(''course_title'', \<lparr>param_type = ''string'',
               param_description =
                 ''The course title to get the outline for (partial matches work, e.g. 'MCP', 'Introduction')''\<rparr>)],
         required = [''course_title'']\<rparr>\<rparr>"

text \<open>
  \<^verbatim>\<open>self.tools\<close>, a dict in insertion order: assigning to a key that is present keeps
  its place, a new key goes to the end.
\<close>

fun dict_set :: "'k \<Rightarrow> 'v \<Rightarrow> ('k \<times> 'v) list \<Rightarrow> ('k \<times> 'v) list" where
  "dict_set k v [] = [(k, v)]"
| "dict_set k v (p # ps) = (if fst p = k then (k, v) # ps else p # dict_set k v ps)"

text \<open>
  The registry is written for any implementation of the \<^verbatim>\<open>Tool\<close> interface: its two
  methods are the parameters \<open>get_tool_definition\<close> and \<open>tool_execute\<close>. A tool's
  \<^verbatim>\<open>execute\<close> may raise and may change the tool.
\<close>

definition ToolManager_register_tool ::
  "('tool \<Rightarrow> tool_def) \<Rightarrow> (string \<times> 'tool) list \<Rightarrow> 'tool \<Rightarrow> exn + (string \<times> 'tool) list" where
  "ToolManager_register_tool get_tool_definition tools tool =
     (let tool_def = get_tool_definition tool;
          tool_name = name tool_def
      in if \<not> truthy_str tool_name
         then Inl (Exn ''ValueError'' ''Tool must have a 'name' in its definition'')
         else Inr (dict_set (the tool_name) tool tools))"

definition ToolManager_get_tool_definitions ::
  "('tool \<Rightarrow> tool_def) \<Rightarrow> (string \<times> 'tool) list \<Rightarrow> tool_def list" where
  "ToolManager_get_tool_definitions get_tool_definition tools =
     map (\<lambda>kv. get_tool_definition (snd kv)) tools"

text \<open>
  \<^verbatim>\<open>execute_tool(tool_name, **kwargs)\<close> is called as \<^verbatim>\<open>execute_tool(name, **mapping)\<close>.
  A mapping that holds the key \<^verbatim>\<open>self\<close> or \<^verbatim>\<open>tool_name\<close> gives a parameter that is
  already bound a second value: Python raises TypeError at the call, before the body
  runs. \<open>clashing_keyword\<close> is the first such key of the mapping.
\<close>

definition clashing_keyword :: "kwargs \<Rightarrow> string option" where
  "clashing_keyword mapping =
     (case filter (\<lambda>k. k = ''self'' \<or> k = ''tool_name'') (map fst mapping) of
        [] \<Rightarrow> None
      | k # _ \<Rightarrow> Some k)"

definition ToolManager_execute_tool ::
  "('tool \<Rightarrow> kwargs \<Rightarrow> (exn + string) \<times> 'tool) \<Rightarrow> (string \<times> 'tool) list \<Rightarrow> string \<Rightarrow> kwargs
     \<Rightarrow> (exn + string) \<times> (string \<times> 'tool) list" where
  "ToolManager_execute_tool tool_execute tools tool_name kwargs =
     (case clashing_keyword kwargs of
        Some k \<Rightarrow>
          (Inl (Exn ''TypeError''
                  (''execute_tool() got multiple values for argument ''
                     @ [CHR 0x27] @ k @ [CHR 0x27])), tools)
      | None \<Rightarrow>
          (case map_of tools tool_name of
             None \<Rightarrow>
               (Inr (''Tool '' @ [CHR 0x27] @ tool_name @ [CHR 0x27] @ '' not found''), tools)
           | Some tool \<Rightarrow>
               (let r = tool_execute tool kwargs
                in (fst r, dict_set tool_name (snd r) tools))))"


section \<open>AIGenerator\<close>

text \<open>
  A content block of a model response: a text block, a tool-call block, or a block of
  any other type (which has no \<^verbatim>\<open>text\<close> attribute).
\<close>

datatype content_block =
    TextBlock (block_text: string)
  | ToolUseBlock (block_id: string) (block_name: string) (block_input: kwargs)
  | OtherBlock (block_type: string)

record response =
  stop_reason :: string
  content :: "content_block list"

text \<open>\<^verbatim>\<open>{"type": "tool_result", "tool_use_id": ..., "content": ...}\<close>.\<close>

record tool_result =
  tool_use_id :: string
  result_content :: string

datatype message_content =
    Text string
  | Blocks "content_block list"
  | ToolResults "tool_result list"

record message =
  role :: string
  msg_content :: message_content

text \<open>
  The keyword arguments of \<^verbatim>\<open>client.messages.create\<close>; \<open>None\<close> is an absent key.
  \<open>tool_choice = Some ''auto''\<close> stands for \<^verbatim>\<open>{"type": "auto"}\<close>.
\<close>

record api_params =
  model :: string
  temperature :: int
  max_tokens :: nat
  messages :: "message list"
  system :: string
  tools :: "tool_def list option"
  tool_choice :: "string option"

definition MAX_TOOL_ROUNDS :: nat where
  "MAX_TOOL_ROUNDS = 2"

definition SYSTEM_PROMPT :: string where
  \<open>SYSTEM_PROMPT =
     '' You are an AI assistant specialized in course materials and educational content with access to tools for searching and exploring course information.\<newline>'' @
     ''\<newline>'' @
     ''Available Tools:\<newline>'' @
     ''1. **search_course_content** - Search within course materials for specific information, concepts, or topics\<newline>'' @
     ''2. **get_course_outline** - Get the complete structure of a course including all lesson titles\<newline>'' @
     ''\<newline>'' @
     ''Tool Selection Guidelines:\<newline>'' @
     ''- Use **get_course_outline** when users ask about:\<newline>'' @
     ''  - Course structure or overview\<newline>'' @
     ''  - What lessons are in a course\<newline>'' @
     ''  - List of topics covered in a course\<newline>'' @
     ''  - Course table of contents\<newline>'' @
     ''\<newline>'' @
     ''- Use **search_course_content** when users ask about:\<newline>'' @
     ''  - Specific concepts, definitions, or explanations\<newline>'' @
     ''  - Detailed information from lesson content\<newline>'' @
     ''  - Questions that require searching through course text\<newline>'' @
     ''\<newline>'' @
     ''- **Sequential tool calls**: You may make up to 2 tool calls per query if needed. After reviewing results from your first tool call, you can make a second call if additional information is required.\<newline>'' @
     ''- **When to use multiple calls**: Use a second tool call when the first search did not return sufficient information, you need to search a different course/lesson, or you need both outline and content details.\<newline>'' @
     ''- **Efficiency**: If the first tool call provides a complete answer, respond directly without additional calls.\<newline>'' @
     ''- If a tool yields no results, state this clearly without offering alternatives\<newline>'' @
     ''\<newline>'' @
     ''Response Protocol:\<newline>'' @
     ''- **General knowledge questions**: Answer using existing knowledge without tools\<newline>'' @
     ''- **Course-specific questions**: Use appropriate tool first, then answer\<newline>'' @
     ''- **No meta-commentary**:\<newline>'' @
     ''  - Provide direct answers only - no reasoning process, search explanations, or question-type analysis\<newline>'' @
     ''  - Do not mention "based on the search results" or "based on the outline"\<newline>'' @
     ''\<newline>'' @
     ''All responses must be:\<newline>'' @
     ''1. **Brief, Concise and focused** - Get to the point quickly\<newline>'' @
     ''2. **Educational** - Maintain instructional value\<newline>'' @
     ''3. **Clear** - Use accessible language\<newline>'' @
     ''4. **Example-supported** - Include relevant examples when they aid understanding\<newline>'' @
     ''Provide only the direct answer to what was asked.\<newline>'' @
     ''''\<close>

text \<open>
  \<^verbatim>\<open>self.base_params\<close>, as a request that has no messages, system text or tools yet;
  \<^verbatim>\<open>{**self.base_params, ...}\<close> is a record update of it.
\<close>

definition AIGenerator_base_params :: "string \<Rightarrow> api_params" where
  "AIGenerator_base_params self_model =
     \<lparr>model = self_model, temperature = 0, max_tokens = 800, messages = [], system = [],
      tools = None, tool_choice = None\<rparr>"

text \<open>
  What one query acts on: the model service behind \<^verbatim>\<open>client.messages.create\<close> and the
  tool manager, each with a state of its own, and the requests sent to the model service
  so far, each with the message list it had when it was sent. The service is the
  parameter \<open>create\<close>, the manager's \<^verbatim>\<open>execute_tool\<close> the parameter \<open>execute_tool\<close>;
  both may raise.
\<close>

record ('c, 't) world =
  client :: 'c
  manager :: 't
  calls :: "api_params list"

fun extract_text :: "content_block list \<Rightarrow> string" where
  "extract_text [] = []"
| "extract_text (TextBlock t # bs) = t"
| "extract_text (b # bs) = extract_text bs"

definition AIGenerator_extract_text_response :: "response \<Rightarrow> string" where
  "AIGenerator_extract_text_response r = extract_text (content r)"

text \<open>
  The inner \<^verbatim>\<open>for\<close> loop of a round: every tool-call block is executed in order, an
  exception of the execution becomes the text of its result.
\<close>

fun execute_tools ::
  "('t \<Rightarrow> string \<Rightarrow> kwargs \<Rightarrow> (exn + string) \<times> 't) \<Rightarrow> content_block list \<Rightarrow> 't
     \<Rightarrow> tool_result list \<times> 't" where
  "execute_tools execute_tool [] tm = ([], tm)"
| "execute_tools execute_tool (ToolUseBlock i n inp # bs) tm =
     (let r = execute_tool tm n inp;
          tool_result = (case fst r of
                           Inr s \<Rightarrow> s
                         | Inl e \<Rightarrow> ''Tool execution failed: '' @ exn_str e);
          rest = execute_tools execute_tool bs (snd r)
      in (\<lparr>tool_use_id = i, result_content = tool_result\<rparr> # fst rest, snd rest))"
| "execute_tools execute_tool (b # bs) tm = execute_tools execute_tool bs tm"

text \<open>The \<^verbatim>\<open>while\<close> loop of \<^verbatim>\<open>_handle_tool_execution\<close> and the final call after it.\<close>

function tool_loop ::
  "('c \<Rightarrow> api_params \<Rightarrow> (exn + response) \<times> 'c)
     \<Rightarrow> ('t \<Rightarrow> string \<Rightarrow> kwargs \<Rightarrow> (exn + string) \<times> 't)
     \<Rightarrow> string \<Rightarrow> api_params \<Rightarrow> message list \<Rightarrow> response \<Rightarrow> nat \<Rightarrow> ('c, 't) world
     \<Rightarrow> (exn + string) \<times> ('c, 't) world" where
  "tool_loop create execute_tool self_model base_params messages' current_response
     rounds_completed w =
     (if rounds_completed < MAX_TOOL_ROUNDS then
        (let messages1 = messages' @
               [\<lparr>role = ''assistant'', msg_content = Blocks (content current_response)\<rparr>];
             executed = execute_tools execute_tool (content current_response) (manager w);
             tool_results = fst executed;
             messages2 = (if tool_results \<noteq> []
                          then messages1 @
                                 [\<lparr>role = ''user'', msg_content = ToolResults tool_results\<rparr>]
                          else messages1);
             next_params = (AIGenerator_base_params self_model)
               \<lparr>messages := messages2,
                system := system base_params,
                tools := Some (case tools base_params of None \<Rightarrow> [] | Some ts \<Rightarrow> ts),
                tool_choice := Some ''auto''\<rparr>;
             created = create (client w) next_params;
             w1 = \<lparr>client = snd created, manager = snd executed,
                   calls = calls w @ [next_params]\<rparr>
         in case fst created of
              Inl e \<Rightarrow> (Inl e, w1)
            | Inr next_response \<Rightarrow>
                if stop_reason next_response \<noteq> ''tool_use''
                then (Inr (AIGenerator_extract_text_response next_response), w1)
                else tool_loop create execute_tool self_model base_params messages2
                       next_response (rounds_completed + 1) w1)
      else
        (let final_params = (AIGenerator_base_params self_model)
               \<lparr>messages := messages', system := system base_params\<rparr>;
             created = create (client w) final_params;
             w1 = w\<lparr>client := snd created, calls := calls w @ [final_params]\<rparr>
         in case fst created of
              Inl e \<Rightarrow> (Inl e, w1)
            | Inr final_response \<Rightarrow>
                (Inr (AIGenerator_extract_text_response final_response), w1)))"
  by pat_completeness auto
termination
  by (relation "measure (\<lambda>(create, execute_tool, self_model, base_params, messages',
                            current_response, rounds_completed, w).
                          MAX_TOOL_ROUNDS - rounds_completed)") auto

declare tool_loop.simps [simp del]

definition AIGenerator_handle_tool_execution ::
  "('c \<Rightarrow> api_params \<Rightarrow> (exn + response) \<times> 'c)
     \<Rightarrow> ('t \<Rightarrow> string \<Rightarrow> kwargs \<Rightarrow> (exn + string) \<times> 't)
     \<Rightarrow> string \<Rightarrow> response \<Rightarrow> api_params \<Rightarrow> ('c, 't) world
     \<Rightarrow> (exn + string) \<times> ('c, 't) world" where
  "AIGenerator_handle_tool_execution create execute_tool self_model initial_response
     base_params w =
     tool_loop create execute_tool self_model base_params (messages base_params)
       initial_response 0 w"

text \<open>
  \<^verbatim>\<open>response.content[0].text\<close>, the direct return of \<^verbatim>\<open>generate_response\<close>: IndexError
  without a first block, AttributeError when the first block is not a text block (the
  message of the exception names the class of the block, which the model does not keep).
\<close>

definition no_text_attribute :: string where
  "no_text_attribute = ''object has no attribute 'text' ''"

definition first_block_text :: "response \<Rightarrow> exn + string" where
  "first_block_text r =
     (case content r of
        [] \<Rightarrow> Inl (Exn ''IndexError'' ''list index out of range'')
      | TextBlock t # _ \<Rightarrow> Inr t
      | ToolUseBlock i n inp # _ \<Rightarrow>
          Inl (Exn ''AttributeError'' no_text_attribute)
      | OtherBlock ty # _ \<Rightarrow>
          Inl (Exn ''AttributeError'' no_text_attribute))"

text \<open>
  \<^verbatim>\<open>generate_response\<close>. The tool manager is optional (\<^verbatim>\<open>tool_manager=None\<close>), and so
  are the history and the tools; the world it returns holds the requests it sent.
\<close>

definition AIGenerator_generate_response ::
  "('c \<Rightarrow> api_params \<Rightarrow> (exn + response) \<times> 'c)
     \<Rightarrow> ('t \<Rightarrow> string \<Rightarrow> kwargs \<Rightarrow> (exn + string) \<times> 't)
     \<Rightarrow> string \<Rightarrow> 'c \<Rightarrow> string \<Rightarrow> string option \<Rightarrow> tool_def list option \<Rightarrow> 't option
     \<Rightarrow> (exn + string) \<times> ('c, 't option) world" where
  "AIGenerator_generate_response create execute_tool self_model c query conversation_history
     tools' tool_manager =
     (let system_content =
            (if truthy_str conversation_history
             then SYSTEM_PROMPT @ ''\<newline>\<newline>Previous conversation:\<newline>''
                    @ the conversation_history
             else SYSTEM_PROMPT);
          api_params = (AIGenerator_base_params self_model)
            \<lparr>messages := [\<lparr>role = ''user'', msg_content = Text query\<rparr>],
             system := system_content\<rparr>;
          api_params = (if tools' \<noteq> None \<and> tools' \<noteq> Some []
                        then api_params\<lparr>tools := tools', tool_choice := Some ''auto''\<rparr>
                        else api_params);
          created = create c api_params
      in case fst created of
           Inl e \<Rightarrow>
             (Inl e, \<lparr>client = snd created, manager = tool_manager, calls = [api_params]\<rparr>)
         | Inr response \<Rightarrow>
             if stop_reason response = ''tool_use'' \<and> tool_manager \<noteq> None then
               (let r = AIGenerator_handle_tool_execution create execute_tool self_model
                          response api_params
                          \<lparr>client = snd created, manager = the tool_manager,
                           calls = [api_params]\<rparr>
                in (fst r, \<lparr>client = client (snd r), manager = Some (manager (snd r)),
                            calls = calls (snd r)\<rparr>))
             else
               (first_block_text response,
                \<lparr>client = snd created, manager = tool_manager, calls = [api_params]\<rparr>))"


section \<open>The Source list in the spec's words\<close>

text \<open>
  "One entry per distinct key, preserving first-seen order": keep the first element,
  drop every later element with the same key, and go on.
\<close>

function first_seen_by :: "('a \<Rightarrow> 'k) \<Rightarrow> 'a list \<Rightarrow> 'a list" where
  "first_seen_by key [] = []"
| "first_seen_by key (x # xs) = x # first_seen_by key (filter (\<lambda>y. key y \<noteq> key x) xs)"
  by pat_completeness auto
termination
  by (relation "measure (\<lambda>(key, xs). length xs)") (auto simp: less_Suc_eq_le)

text \<open>
  The citation of one chunk, and the backend lookup it takes: a chunk without a lesson
  number has no link and takes no lookup.
\<close>

definition source_entry :: "store \<Rightarrow> meta \<Rightarrow> source" where
  "source_entry st m =
     \<lparr>title = source_title_of m,
      url = (case lesson_number m of
               None \<Rightarrow> None
             | Some n \<Rightarrow> get_lesson_link st
                          (case course_title m of None \<Rightarrow> ''unknown'' | Some t \<Rightarrow> t) n)\<rparr>"

definition link_call_of :: "meta \<Rightarrow> (string \<times> int) list" where
  "link_call_of m =
     (case lesson_number m of
        None \<Rightarrow> []
      | Some n \<Rightarrow> [(case course_title m of None \<Rightarrow> ''unknown'' | Some t \<Rightarrow> t, n)])"


section \<open>Concrete backends and inputs\<close>

text \<open>A backend that finds nothing and reports no error.\<close>

definition empty_store :: store where
  "empty_store =
     \<lparr>search = (\<lambda>q cn ln. \<lparr>documents = [], metadata = [], error = None\<rparr>),
      get_lesson_link = (\<lambda>c n. None),
      resolve_course_name = (\<lambda>p. None),
      course_catalog_get = (\<lambda>i. Inr None)\<rparr>"

text \<open>
  A backend with three chunks for the query \<open>''variables''\<close>, two of lesson 1 and one of
  lesson 2 of CourseA, and nothing for any other query.
\<close>

definition demo_results :: search_results where
  "demo_results =
     \<lparr>documents = [''chunk one'', ''chunk two'', ''chunk three''],
      metadata = [\<lparr>course_title = Some ''CourseA'', lesson_number = Some 1\<rparr>,
                  \<lparr>course_title = Some ''CourseA'', lesson_number = Some 1\<rparr>,
                  \<lparr>course_title = Some ''CourseA'', lesson_number = Some 2\<rparr>],
      error = None\<rparr>"

definition demo_store :: store where
  "demo_store =
     \<lparr>search = (\<lambda>q cn ln. if q = ''variables'' then demo_results
                           else \<lparr>documents = [], metadata = [], error = None\<rparr>),
      get_lesson_link = (\<lambda>c n. Some (''http://a/'' @ str_int n)),
      resolve_course_name = (\<lambda>p. None),
      course_catalog_get = (\<lambda>i. Inr None)\<rparr>"

text \<open>
  Two chunks of different (course, lesson) pairs whose source titles are the same text:
  a course named \<open>''A - Lesson 1''\<close> without a lesson number, and lesson 1 of course \<open>''A''\<close>.
\<close>

definition clash_results :: search_results where
  "clash_results =
     \<lparr>documents = [''chunk one'', ''chunk two''],
      metadata = [\<lparr>course_title = Some ''A - Lesson 1'', lesson_number = None\<rparr>,
                  \<lparr>course_title = Some ''A'', lesson_number = Some 1\<rparr>],
      error = None\<rparr>"


section \<open>Registries built by registration\<close>

text \<open>
  What holds of every \<^verbatim>\<open>self.tools\<close> that \<^verbatim>\<open>register_tool\<close> has built from the empty
  dict: the keys are distinct (it is a dict), and each tool is stored under the name of
  its own definition.
\<close>

definition registry_ok :: "('tool \<Rightarrow> tool_def) \<Rightarrow> (string \<times> 'tool) list \<Rightarrow> bool" where
  "registry_ok get_tool_definition ts =
     (distinct (map fst ts)
      \<and> list_all (\<lambda>kv. name (get_tool_definition (snd kv)) = Some (fst kv)) ts)"

text \<open>
  Tools for examples: a tool is its definition and a label that tells two instances
  apart; executing it returns a fixed text.
\<close>

definition demo_tool_definition :: "tool_def \<times> string \<Rightarrow> tool_def" where
  "demo_tool_definition t = fst t"

definition demo_tool_execute ::
  "tool_def \<times> string \<Rightarrow> kwargs \<Rightarrow> (exn + string) \<times> (tool_def \<times> string)" where
  "demo_tool_execute t kw = (Inr (''result of '' @ snd t), t)"

definition demo_registry :: "(string \<times> (tool_def \<times> string)) list" where
  "demo_registry =
     [(''search_course_content'', (CourseSearchTool_get_tool_definition, ''first'')),
      (''get_course_outline'', (CourseOutlineTool_get_tool_definition, ''outline''))]"

definition second_search_tool :: "tool_def \<times> string" where
  "second_search_tool =
     (CourseSearchTool_get_tool_definition\<lparr>description := ''Another search''\<rparr>, ''second'')"

text \<open>A second instance of the search tool itself: the definition of the first.\<close>

definition duplicate_search_tool :: "tool_def \<times> string" where
  "duplicate_search_tool = (CourseSearchTool_get_tool_definition, ''second'')"


section \<open>A stored course, for the outline example\<close>

definition lessons_json_example :: string where
  \<open>lessons_json_example = ''[{"lesson_number":1,"lesson_title":"Basics"}]''\<close>

definition example_metadata :: "(string \<times> string) list" where
  "example_metadata =
     [(''title'', ''Intro to X''),
      (''course_link'', ''http://x''),
      (''lessons_json'', lessons_json_example)]"

text \<open>What \<^verbatim>\<open>json.loads\<close> returns for the example text.\<close>

definition example_lessons :: pyval where
  "example_lessons =
     PList [PDict [(''lesson_number'', PInt 1), (''lesson_title'', PStr ''Basics'')]]"

text \<open>
  A backend that resolves any course name that contains "Intro" to the stored course,
  and a decoder for the example text alone (any other text is refused).
\<close>

definition catalog_store :: store where
  "catalog_store =
     \<lparr>search = (\<lambda>q cn ln. \<lparr>documents = [], metadata = [], error = None\<rparr>),
      get_lesson_link = (\<lambda>c n. None),
      resolve_course_name = (\<lambda>p. if contains ''Intro'' p then Some ''Intro to X'' else None),
      course_catalog_get =
        (\<lambda>i. if i = ''Intro to X''
              then Inr (Some \<lparr>metadatas = Some [Some example_metadata]\<rparr>)
              else Inr (Some \<lparr>metadatas = Some []\<rparr>))\<rparr>"

definition example_json_loads :: "string \<Rightarrow> pyval option" where
  "example_json_loads s = (if s = lessons_json_example then Some example_lessons else None)"


section \<open>Model responses and services, for the generation loop\<close>

fun is_tool_use :: "content_block \<Rightarrow> bool" where
  "is_tool_use (ToolUseBlock i n inp) = True"
| "is_tool_use b = False"

text \<open>A response that requests at least one tool.\<close>

definition requests_tool :: "response \<Rightarrow> bool" where
  "requests_tool r = (stop_reason r = ''tool_use'' \<and> list_ex is_tool_use (content r))"

text \<open>
  A model service that asks for a search on every call, whatever it is sent; its state
  counts the calls. The final text block is what a text-only answer is read from.
\<close>

definition greedy_response :: response where
  "greedy_response =
     \<lparr>stop_reason = ''tool_use'',
      content = [ToolUseBlock ''toolu_1'' ''search_course_content''
                   [(''query'', PStr ''variables'')],
                 TextBlock ''Still searching.'']\<rparr>"

definition greedy_create :: "nat \<Rightarrow> api_params \<Rightarrow> (exn + response) \<times> nat" where
  "greedy_create c p = (Inr greedy_response, c + 1)"

text \<open>
  A tool manager without state whose tool named \<open>''broken''\<close> raises, and a response
  that calls that tool and then another one.
\<close>

definition flaky_execute_tool :: "unit \<Rightarrow> string \<Rightarrow> kwargs \<Rightarrow> (exn + string) \<times> unit" where
  "flaky_execute_tool tm n inp =
     (if n = ''broken'' then (Inl (Exn ''RuntimeError'' ''backend down''), tm)
      else (Inr (''result of '' @ n), tm))"

definition two_calls_response :: response where
  "two_calls_response =
     \<lparr>stop_reason = ''tool_use'',
      content = [TextBlock ''Let me look.'',
                 ToolUseBlock ''toolu_1'' ''broken'' [],
                 ToolUseBlock ''toolu_2'' ''get_course_outline''
                   [(''course_title'', PStr ''Intro'')]]\<rparr>"

text \<open>A model service that answers every call with a final text.\<close>

definition final_response :: response where
  "final_response = \<lparr>stop_reason = ''end_turn'', content = [TextBlock ''Done.'']\<rparr>"

definition final_create :: "nat \<Rightarrow> api_params \<Rightarrow> (exn + response) \<times> nat" where
  "final_create c p = (Inr final_response, c + 1)"


section \<open>The parts of a round, named\<close>

text \<open>
  The message list after a round, the request that follows a round and the request
  after the last round, as \<open>tool_loop\<close> builds them.
\<close>

definition round_messages ::
  "('t \<Rightarrow> string \<Rightarrow> kwargs \<Rightarrow> (exn + string) \<times> 't) \<Rightarrow> message list \<Rightarrow> response \<Rightarrow> 't
     \<Rightarrow> message list" where
  "round_messages execute_tool msgs cur tm =
     (if fst (execute_tools execute_tool (content cur) tm) \<noteq> []
      then msgs @ [\<lparr>role = ''assistant'', msg_content = Blocks (content cur)\<rparr>,
                   \<lparr>role = ''user'',
                    msg_content = ToolResults
                      (fst (execute_tools execute_tool (content cur) tm))\<rparr>]
      else msgs @ [\<lparr>role = ''assistant'', msg_content = Blocks (content cur)\<rparr>])"

definition next_params :: "string \<Rightarrow> api_params \<Rightarrow> message list \<Rightarrow> api_params" where
  "next_params self_model base_params msgs =
     (AIGenerator_base_params self_model)
       \<lparr>messages := msgs,
        system := system base_params,
        tools := Some (case tools base_params of None \<Rightarrow> [] | Some ts \<Rightarrow> ts),
        tool_choice := Some ''auto''\<rparr>"

definition final_params :: "string \<Rightarrow> api_params \<Rightarrow> message list \<Rightarrow> api_params" where
  "final_params self_model base_params msgs =
     (AIGenerator_base_params self_model)\<lparr>messages := msgs, system := system base_params\<rparr>"

text \<open>A model service whose answer has no content block at all.\<close>

definition empty_response :: response where
  "empty_response = \<lparr>stop_reason = ''end_turn'', content = []\<rparr>"

definition empty_create :: "nat \<Rightarrow> api_params \<Rightarrow> (exn + response) \<times> nat" where
  "empty_create c p = (Inr empty_response, c + 1)"

text \<open>
  The request of a query that advertises the search tool, and the world after that
  request was sent and before the tool loop starts.
\<close>

definition demo_params :: api_params where
  "demo_params =
     (AIGenerator_base_params ''claude'')
       \<lparr>messages := [\<lparr>role = ''user'', msg_content = Text ''What is a variable?''\<rparr>],
        system := ''You are helpful.'',
        tools := Some [CourseSearchTool_get_tool_definition],
        tool_choice := Some ''auto''\<rparr>"

definition demo_world :: "(nat, unit) world" where
  "demo_world = \<lparr>client = 1, manager = (), calls = [demo_params]\<rparr>"

fun is_text :: "content_block \<Rightarrow> bool" where
  "is_text (TextBlock t) = True"
| "is_text b = False"


section \<open>Facts about formatting\<close>

lemma str_int_1: "str_int 1 = ''1''"
  by code_simp

lemma str_int_2: "str_int 2 = ''2''"
  by code_simp

lemma str_int_3: "str_int 3 = ''3''"
  by code_simp


section \<open>CourseSearchTool: the message of an empty search\<close>

text \<open>
  C6. When the backend returns no documents and no error, the tool returns the
  "no content found" message with the filters that were applied echoed in it: the course
  name in quotes when one was given, then the lesson number when one was given. The
  spec's example, \<^verbatim>\<open>execute("quantum foo", course_name="Physics")\<close>, is the witness.
\<close>

theorem empty_search_echoes_filters:
  assumes docs: "\<And>cn ln. documents (search st q cn ln) = []"
      and noerr: "\<And>cn ln. \<not> truthy_str (error (search st q cn ln))"
      and c: "c \<noteq> []" and n: "n \<noteq> 0"
  shows "fst (CourseSearchTool_execute st ls q (Some c) None)
           = ''No relevant content found in course '' @ [CHR 0x27] @ c @ [CHR 0x27] @ ''.''
       \<and> fst (CourseSearchTool_execute st ls q (Some c) (Some n))
           = ''No relevant content found in course '' @ [CHR 0x27] @ c @ [CHR 0x27]
               @ '' in lesson '' @ str_int n @ ''.''
       \<and> fst (CourseSearchTool_execute st ls q None (Some n))
           = ''No relevant content found in lesson '' @ str_int n @ ''.''
       \<and> fst (CourseSearchTool_execute st ls q None None) = ''No relevant content found.''"
  using docs noerr c n by (simp add: CourseSearchTool_execute_def is_empty_def)

text \<open>The spec's example, and the example of its component description.\<close>

theorem empty_search_echoes_filters_witness:
  "fst (CourseSearchTool_execute empty_store [] ''quantum foo'' (Some ''Physics'') None)
     = ''No relevant content found in course 'Physics'.''
   \<and> fst (CourseSearchTool_execute empty_store [] ''quantum foo'' (Some ''Physics'') (Some 3))
     = ''No relevant content found in course 'Physics' in lesson 3.''"
  using empty_search_echoes_filters [of empty_store "''quantum foo''" "''Physics''" 3 "[]"]
  by (simp add: empty_store_def str_int_3)

text \<open>
  C10. The echo of a filter is gated on the truth value of the argument: with
  \<^verbatim>\<open>lesson_number = 0\<close> or \<^verbatim>\<open>course_name = ""\<close> and an empty result, the message is
  the one of a search without that filter, so a search in lesson 0 alone answers
  "No relevant content found.".
\<close>

theorem falsy_filter_not_echoed:
  assumes docs: "\<And>cn ln. documents (search st q cn ln) = []"
      and noerr: "\<And>cn ln. \<not> truthy_str (error (search st q cn ln))"
  shows "fst (CourseSearchTool_execute st ls q None (Some 0)) = ''No relevant content found.''
       \<and> fst (CourseSearchTool_execute st ls q (Some []) None) = ''No relevant content found.''
       \<and> fst (CourseSearchTool_execute st ls q (Some []) (Some 0))
           = ''No relevant content found.''
       \<and> fst (CourseSearchTool_execute st ls q cn (Some 0))
           = fst (CourseSearchTool_execute st ls q cn None)
       \<and> fst (CourseSearchTool_execute st ls q (Some []) ln)
           = fst (CourseSearchTool_execute st ls q None ln)"
  using docs noerr by (simp add: CourseSearchTool_execute_def is_empty_def)

theorem falsy_filter_not_echoed_witness:
  "fst (CourseSearchTool_execute empty_store [] ''quantum foo'' None (Some 0))
     = ''No relevant content found.''
   \<and> fst (CourseSearchTool_execute empty_store [] ''quantum foo'' (Some ''Physics'') (Some 0))
     = ''No relevant content found in course 'Physics'.''"
  using falsy_filter_not_echoed [of empty_store "''quantum foo''" "[]" "Some ''Physics''"]
  by (simp add: empty_store_def CourseSearchTool_execute_def is_empty_def)


section \<open>CourseSearchTool: the Source list\<close>

lemma format_step_seen:
  "seen_titles (format_step st s dm) = insert (source_title_of (snd dm)) (seen_titles s)"
  by (auto simp: format_step_def Let_def split: option.splits)

lemma format_step_sources:
  "sources (format_step st s dm) =
     (if source_title_of (snd dm) \<in> seen_titles s then sources s
      else sources s @ [source_entry st (snd dm)])"
  by (auto simp: format_step_def source_entry_def Let_def split: option.splits)

lemma format_step_link_calls:
  "link_calls (format_step st s dm) =
     (if source_title_of (snd dm) \<in> seen_titles s then link_calls s
      else link_calls s @ link_call_of (snd dm))"
  by (auto simp: format_step_def link_call_of_def Let_def split: option.splits)

text \<open>
  The loop invariant, for any starting state: the sources found are those of the first
  chunks per title among the chunks whose title was not seen before.
\<close>

lemma format_loop_sources:
  "sources (format_loop st dms s) =
     sources s @ map (source_entry st)
       (first_seen_by source_title_of
          (filter (\<lambda>m. source_title_of m \<notin> seen_titles s) (map snd dms)))"
proof (induction dms arbitrary: s)
  case Nil
  then show ?case by simp
next
  case (Cons dm rest)
  show ?case
  proof (cases "source_title_of (snd dm) \<in> seen_titles s")
    case True
    then show ?thesis
      by (simp add: Cons.IH format_step_seen format_step_sources insert_absorb)
  next
    case False
    then show ?thesis
      by (simp add: Cons.IH format_step_seen format_step_sources conj_commute)
  qed
qed

lemma format_loop_link_calls:
  "link_calls (format_loop st dms s) =
     link_calls s @ concat (map link_call_of
       (first_seen_by source_title_of
          (filter (\<lambda>m. source_title_of m \<notin> seen_titles s) (map snd dms))))"
proof (induction dms arbitrary: s)
  case Nil
  then show ?case by simp
next
  case (Cons dm rest)
  show ?case
  proof (cases "source_title_of (snd dm) \<in> seen_titles s")
    case True
    then show ?thesis
      by (simp add: Cons.IH format_step_seen format_step_link_calls insert_absorb)
  next
    case False
    then show ?thesis
      by (simp add: Cons.IH format_step_seen format_step_link_calls conj_commute)
  qed
qed

lemma first_seen_by_keys:
  "map key (first_seen_by key xs) = first_seen_by id (map key xs)"
proof (induction key xs rule: first_seen_by.induct)
  case (1 key)
  then show ?case by simp
next
  case (2 key x xs)
  then show ?case by (simp add: filter_map comp_def)
qed

lemma first_seen_by_set:
  "set (map key (first_seen_by key xs)) = set (map key xs)"
proof (induction key xs rule: first_seen_by.induct)
  case (1 key)
  then show ?case by simp
next
  case (2 key x xs)
  then show ?case by auto
qed

lemma first_seen_by_subset: "set (first_seen_by key xs) \<subseteq> set xs"
proof (induction key xs rule: first_seen_by.induct)
  case (1 key)
  then show ?case by simp
next
  case (2 key x xs)
  then show ?case by auto
qed

lemma first_seen_by_distinct:
  "distinct (map key (first_seen_by key xs))"
proof (induction key xs rule: first_seen_by.induct)
  case (1 key)
  then show ?case by simp
next
  case (2 key x xs)
  have "key x \<notin> key ` set (first_seen_by key (filter (\<lambda>y. key y \<noteq> key x) xs))"
    using first_seen_by_subset [of key "filter (\<lambda>y. key y \<noteq> key x) xs"] by auto
  with 2 show ?case by simp
qed

lemma first_seen_by_inj:
  "inj_on key (set xs) \<Longrightarrow> first_seen_by key xs = first_seen_by id xs"
proof (induction key xs rule: first_seen_by.induct)
  case (1 key)
  then show ?case by simp
next
  case (2 key x xs)
  have eq: "filter (\<lambda>y. key y \<noteq> key x) xs = filter (\<lambda>y. y \<noteq> x) xs"
    using "2.prems" by (intro filter_cong) (auto simp: inj_on_def)
  have "inj_on key (set (filter (\<lambda>y. key y \<noteq> key x) xs))"
    using "2.prems" by (auto simp: inj_on_def)
  with "2.IH" eq show ?case by simp
qed

text \<open>
  C3, as the code has it. The Source list that \<^verbatim>\<open>_format_results\<close> retains has exactly
  one entry per distinct source title (the course title, followed by the lesson number
  when the chunk has one), in first-seen order, built from the first chunk seen with
  that title; the link is looked up once for each distinct title whose first-seen chunk
  has a lesson number, with the course and lesson of that chunk, and not at all for a
  title whose first-seen chunk has none. Whenever different (course, lesson) pairs have
  different titles, that is one entry per distinct pair. The spec's three chunks are
  the witness.
\<close>

theorem sources_one_per_distinct_title:
  fixes st :: store and r :: search_results
  defines "ms \<equiv> map snd (zip (documents r) (metadata r))"
  defines "out \<equiv> CourseSearchTool_format_results st r"
  shows "fst (snd out) = map (source_entry st) (first_seen_by source_title_of ms)
       \<and> map title (fst (snd out)) = first_seen_by id (map source_title_of ms)
       \<and> distinct (map title (fst (snd out)))
       \<and> set (map title (fst (snd out))) = set (map source_title_of ms)
       \<and> snd (snd out) = concat (map link_call_of (first_seen_by source_title_of ms))
       \<and> (inj_on source_title_of (set ms) \<longrightarrow>
            fst (snd out) = map (source_entry st) (first_seen_by id ms))"
proof -
  have src: "fst (snd out) = map (source_entry st) (first_seen_by source_title_of ms)"
    by (simp add: out_def ms_def CourseSearchTool_format_results_def Let_def
        format_loop_sources fmt_init_def)
  have calls: "snd (snd out) = concat (map link_call_of (first_seen_by source_title_of ms))"
    by (simp add: out_def ms_def CourseSearchTool_format_results_def Let_def
        format_loop_link_calls fmt_init_def)
  have titles:
    "map title (fst (snd out)) = map source_title_of (first_seen_by source_title_of ms)"
    by (simp add: src source_entry_def comp_def)
  show ?thesis
    using src calls titles first_seen_by_keys [of source_title_of ms]
      first_seen_by_distinct [of source_title_of ms]
      first_seen_by_set [of source_title_of ms]
      first_seen_by_inj [of source_title_of ms]
    by simp
qed

text \<open>
  Three chunks, two of (CourseA, lesson 1) and one of (CourseA, lesson 2): two entries
  in first-seen order, and two lookups.
\<close>

theorem sources_one_per_distinct_title_witness:
  "inj_on source_title_of
     (set (map snd (zip (documents demo_results) (metadata demo_results))))
   \<and> fst (snd (CourseSearchTool_format_results demo_store demo_results))
       = [\<lparr>title = ''CourseA - Lesson 1'', url = Some ''http://a/1''\<rparr>,
          \<lparr>title = ''CourseA - Lesson 2'', url = Some ''http://a/2''\<rparr>]
   \<and> snd (snd (CourseSearchTool_format_results demo_store demo_results))
       = [(''CourseA'', 1), (''CourseA'', 2)]"
  using sources_one_per_distinct_title [of demo_store demo_results]
  by (simp add: demo_results_def demo_store_def source_entry_def link_call_of_def
      source_title_of_def str_int_1 str_int_2)

text \<open>
  C3 as stated fails: two chunks of two different (course, lesson) pairs, a course
  named "A - Lesson 1" without a lesson number and lesson 1 of the course "A", give one
  entry, not two, and no lookup at all.
\<close>

theorem sources_title_clash_counterexample:
  "distinct (metadata clash_results)
   \<and> length (metadata clash_results) = 2
   \<and> fst (snd (CourseSearchTool_format_results demo_store clash_results))
       = [\<lparr>title = ''A - Lesson 1'', url = None\<rparr>]
   \<and> snd (snd (CourseSearchTool_format_results demo_store clash_results)) = []"
  by (simp add: clash_results_def CourseSearchTool_format_results_def fmt_init_def
      format_step_def source_title_of_def header_of_def str_int_1 Let_def)

text \<open>
  C4. The claim: every execution overwrites the retained Source list. The code, at a
  search with results followed by a search without: the second execution returns through
  the early return for an empty result and leaves the two sources of the first in place.
\<close>

theorem stale_sources_after_empty_search:
  "fst (snd (CourseSearchTool_execute demo_store [] ''variables'' None None))
     = [\<lparr>title = ''CourseA - Lesson 1'', url = Some ''http://a/1''\<rparr>,
        \<lparr>title = ''CourseA - Lesson 2'', url = Some ''http://a/2''\<rparr>]
   \<and> CourseSearchTool_execute demo_store
        [\<lparr>title = ''CourseA - Lesson 1'', url = Some ''http://a/1''\<rparr>,
         \<lparr>title = ''CourseA - Lesson 2'', url = Some ''http://a/2''\<rparr>]
        ''quantum foo'' None None
     = (''No relevant content found.'',
        [\<lparr>title = ''CourseA - Lesson 1'', url = Some ''http://a/1''\<rparr>,
         \<lparr>title = ''CourseA - Lesson 2'', url = Some ''http://a/2''\<rparr>], [])"
  by (simp add: CourseSearchTool_execute_def demo_store_def demo_results_def is_empty_def
      CourseSearchTool_format_results_def fmt_init_def
      format_step_def source_title_of_def header_of_def str_int_1 str_int_2 Let_def)


section \<open>ToolManager\<close>


lemma starts_with_append: "starts_with n (n @ t)"
  by (induction n) auto

lemma contains_start: "starts_with n t \<Longrightarrow> contains n t"
  by (cases t) auto

lemma contains_append: "contains n t \<Longrightarrow> contains n (p @ t)"
  by (induction p) auto

lemma contains_middle: "contains n (p @ n @ t)"
  by (intro contains_append contains_start starts_with_append)

lemma no_clashing_key:
  "''self'' \<notin> fst ` set mapping \<Longrightarrow> ''tool_name'' \<notin> fst ` set mapping
     \<Longrightarrow> filter (\<lambda>k. k = ''self'' \<or> k = ''tool_name'') (map fst mapping) = []"
  by (induction mapping) auto

lemma clashing_keyword_None:
  "''self'' \<notin> fst ` set mapping \<Longrightarrow> ''tool_name'' \<notin> fst ` set mapping
     \<Longrightarrow> clashing_keyword mapping = None"
  by (simp add: clashing_keyword_def no_clashing_key)

text \<open>
  C7, as the code has it. For every name that is not registered, and every keyword
  mapping that holds neither the key \<^verbatim>\<open>self\<close> nor the key \<^verbatim>\<open>tool_name\<close>,
  \<^verbatim>\<open>execute_tool\<close> raises nothing: it returns the text \<^verbatim>\<open>Tool '<name>' not found\<close>,
  which contains "not found", and leaves the registry as it was.
\<close>

theorem unknown_tool_not_found:
  assumes unknown: "tool_name \<notin> fst ` set tools'"
      and noself: "''self'' \<notin> fst ` set kwargs"
      and noname: "''tool_name'' \<notin> fst ` set kwargs"
  shows "ToolManager_execute_tool tool_execute tools' tool_name kwargs
           = (Inr (''Tool '' @ [CHR 0x27] @ tool_name @ [CHR 0x27] @ '' not found''), tools')
       \<and> (\<exists>text. fst (ToolManager_execute_tool tool_execute tools' tool_name kwargs) = Inr text
                 \<and> contains ''not found'' text)"
proof -
  have none: "map_of tools' tool_name = None"
    using unknown by (simp add: map_of_eq_None_iff)
  have bound: "clashing_keyword kwargs = None"
    using noself noname by (rule clashing_keyword_None)
  have c: "contains ''not found''
             (''Tool '' @ [CHR 0x27] @ tool_name @ [CHR 0x27] @ '' not found'')"
    using contains_middle [of "''not found''"
        "''Tool '' @ [CHR 0x27] @ tool_name @ [CHR 0x27] @ '' ''" "[]"]
    by simp
  show ?thesis
    using none bound c by (simp add: ToolManager_execute_tool_def)
qed

theorem unknown_tool_not_found_witness:
  "''nonexistent_tool'' \<notin> fst ` set demo_registry
   \<and> ''self'' \<notin> fst ` set [(''query'', PStr ''variables'')]
   \<and> ''tool_name'' \<notin> fst ` set [(''query'', PStr ''variables'')]
   \<and> ToolManager_execute_tool demo_tool_execute demo_registry ''nonexistent_tool''
         [(''query'', PStr ''variables'')]
       = (Inr ''Tool 'nonexistent_tool' not found'', demo_registry)
   \<and> contains ''not found'' ''Tool 'nonexistent_tool' not found''"
  using unknown_tool_not_found [of "''nonexistent_tool''" demo_registry
      "[(''query'', PStr ''variables'')]" demo_tool_execute]
  by (simp add: demo_registry_def)

text \<open>
  C7 as stated fails: for a name that is not registered and a keyword mapping that
  holds the key \<^verbatim>\<open>tool_name\<close>, the call raises TypeError.
\<close>

theorem unknown_tool_clashing_keyword_counterexample:
  "''nonexistent_tool'' \<notin> fst ` set demo_registry
   \<and> ToolManager_execute_tool demo_tool_execute demo_registry ''nonexistent_tool''
         [(''tool_name'', PStr ''search_course_content'')]
       = (Inl (Exn ''TypeError''
                 (''execute_tool() got multiple values for argument ''
                    @ [CHR 0x27] @ ''tool_name'' @ [CHR 0x27])),
          demo_registry)"
  by (simp add: demo_registry_def ToolManager_execute_tool_def clashing_keyword_def)

lemma dict_set_keys: "k \<in> fst ` set ts \<Longrightarrow> map fst (dict_set k v ts) = map fst ts"
  by (induction ts) auto

lemma dict_set_lookup: "map_of (dict_set k v ts) k = Some v"
  by (induction ts) auto

lemma dict_set_other:
  "distinct (map fst ts) \<Longrightarrow> kv \<in> set (dict_set k v ts) \<Longrightarrow> kv = (k, v) \<or> (kv \<in> set ts \<and> fst kv \<noteq> k)"
proof (induction ts)
  case Nil
  then show ?case by simp
next
  case (Cons p ps)
  then show ?case by (auto split: if_splits simp: rev_image_eqI)
qed

lemma dict_set_mem: "(k, v) \<in> set (dict_set k v ts)"
  by (induction ts) auto

lemma dict_set_one:
  "distinct (map fst ts) \<Longrightarrow> length (filter (\<lambda>kv. fst kv = k) (dict_set k v ts)) = 1"
proof (induction ts)
  case Nil
  then show ?case by simp
next
  case (Cons p ps)
  have "fst p = k \<Longrightarrow> filter (\<lambda>kv. fst kv = k) ps = []"
    using Cons.prems by (auto simp: filter_empty_conv rev_image_eqI)
  with Cons show ?case by auto
qed

lemma dict_set_length: "k \<in> fst ` set ts \<Longrightarrow> length (dict_set k v ts) = length ts"
  by (induction ts) auto

lemma dict_set_definitions:
  assumes names: "\<And>kv. kv \<in> set ts \<Longrightarrow> name (gd (snd kv)) = Some (fst kv)"
      and dist: "distinct (map fst ts)"
      and key: "n \<in> fst ` set ts"
      and nm: "name (gd new) = Some n"
  shows "map (\<lambda>kv. gd (snd kv)) (dict_set n new ts)
           = map (\<lambda>d. if name d = Some n then gd new else d) (map (\<lambda>kv. gd (snd kv)) ts)"
  using names dist key
proof (induction ts)
  case Nil
  then show ?case by simp
next
  case (Cons p ps)
  have hd: "name (gd (snd p)) = Some (fst p)"
    using Cons.prems(1) [of p] by simp
  have tl: "\<And>kv. kv \<in> set ps \<Longrightarrow> name (gd (snd kv)) = Some (fst kv)"
    using Cons.prems(1) by simp
  show ?case
  proof (cases "fst p = n")
    case True
    have "\<And>kv. kv \<in> set ps \<Longrightarrow> name (gd (snd kv)) \<noteq> Some n"
    proof -
      fix kv assume kv: "kv \<in> set ps"
      then have mem: "fst kv \<in> fst ` set ps" by (rule imageI)
      have "fst p \<notin> fst ` set ps" using Cons.prems(2) by simp
      with mem have "fst kv \<noteq> fst p" by metis
      with tl [OF kv] True show "name (gd (snd kv)) \<noteq> Some n" by simp
    qed
    then have "map (\<lambda>d. if name d = Some n then gd new else d) (map (\<lambda>kv. gd (snd kv)) ps)
        = map (\<lambda>kv. gd (snd kv)) ps"
      by (induction ps) auto
    with True hd show ?thesis by simp
  next
    case False
    then have "n \<in> fst ` set ps" using Cons.prems(3) by auto
    with Cons.IH [OF tl] Cons.prems(2) False hd show ?thesis by simp
  qed
qed

lemma same_definition_unchanged:
  assumes names: "\<And>kv. kv \<in> set ts \<Longrightarrow> name (gd (snd kv)) = Some (fst kv)"
      and dist: "distinct (map fst ts)"
      and old: "map_of ts n = Some old"
      and same: "gd old = gd new"
  shows "map (\<lambda>d. if name d = Some n then gd new else d) (map (\<lambda>kv. gd (snd kv)) ts)
           = map (\<lambda>kv. gd (snd kv)) ts"
proof -
  have "\<And>kv. kv \<in> set ts \<Longrightarrow> name (gd (snd kv)) = Some n \<Longrightarrow> gd (snd kv) = gd new"
  proof -
    fix kv assume kv: "kv \<in> set ts" and n: "name (gd (snd kv)) = Some n"
    from names [OF kv] n have "fst kv = n" by simp
    with kv have "(n, snd kv) \<in> set ts" by (metis prod.collapse)
    with dist have "map_of ts n = Some (snd kv)" by simp
    with old same show "gd (snd kv) = gd new" by simp
  qed
  then show ?thesis by (simp add: map_idI)
qed

text \<open>
  C9, as the code has it. In a registry built by registration, registering a tool whose
  definition has the name of a tool already registered raises no error and replaces that
  tool in place: the name then maps to the new tool, exactly one entry has that name,
  the keys are unchanged, and the list of definitions is the earlier list with the new
  tool's definition in the place of the definition of that name. The earlier tool's
  definition is no longer in the list when it differs from the new tool's; when the two
  definitions are equal the list is the same as before.
\<close>

theorem register_replaces_same_name:
  assumes ok: "registry_ok get_tool_definition tools'"
      and nm: "name (get_tool_definition new) = Some n" and ne: "n \<noteq> []"
      and old: "map_of tools' n = Some old"
  shows "ToolManager_register_tool get_tool_definition tools' new = Inr (dict_set n new tools')
       \<and> map_of (dict_set n new tools') n = Some new
       \<and> length (filter (\<lambda>kv. fst kv = n) (dict_set n new tools')) = 1
       \<and> map fst (dict_set n new tools') = map fst tools'
       \<and> length (ToolManager_get_tool_definitions get_tool_definition (dict_set n new tools'))
           = length (ToolManager_get_tool_definitions get_tool_definition tools')
       \<and> get_tool_definition new
           \<in> set (ToolManager_get_tool_definitions get_tool_definition (dict_set n new tools'))
       \<and> (get_tool_definition old \<noteq> get_tool_definition new \<longrightarrow>
            get_tool_definition old
              \<notin> set (ToolManager_get_tool_definitions get_tool_definition
                       (dict_set n new tools')))
       \<and> (old \<noteq> new \<longrightarrow> old \<notin> snd ` set (dict_set n new tools'))
       \<and> ToolManager_get_tool_definitions get_tool_definition (dict_set n new tools')
           = map (\<lambda>d. if name d = Some n then get_tool_definition new else d)
               (ToolManager_get_tool_definitions get_tool_definition tools')
       \<and> (get_tool_definition old = get_tool_definition new \<longrightarrow>
            ToolManager_get_tool_definitions get_tool_definition (dict_set n new tools')
              = ToolManager_get_tool_definitions get_tool_definition tools')"
proof -
  have dist: "distinct (map fst tools')"
    and names: "\<And>kv. kv \<in> set tools' \<Longrightarrow> name (get_tool_definition (snd kv)) = Some (fst kv)"
    using ok by (auto simp: registry_ok_def list_all_iff)
  have key: "n \<in> fst ` set tools'"
    using old by (metis map_of_eq_None_iff option.distinct(1))
  have oldname: "name (get_tool_definition old) = Some n"
    using names [of "(n, old)"] map_of_SomeD [OF old] by simp
  have other: "\<And>kv. kv \<in> set (dict_set n new tools') \<Longrightarrow>
                 kv = (n, new) \<or> (kv \<in> set tools' \<and> fst kv \<noteq> n)"
    using dict_set_other [OF dist] by blast
  have gone_def: "get_tool_definition old \<noteq> get_tool_definition new \<Longrightarrow>
      get_tool_definition old
        \<notin> set (ToolManager_get_tool_definitions get_tool_definition (dict_set n new tools'))"
  proof
    assume d: "get_tool_definition old \<noteq> get_tool_definition new"
      and "get_tool_definition old
        \<in> set (ToolManager_get_tool_definitions get_tool_definition (dict_set n new tools'))"
    then obtain kv where kv: "kv \<in> set (dict_set n new tools')"
      and eq: "get_tool_definition old = get_tool_definition (snd kv)"
      by (auto simp: ToolManager_get_tool_definitions_def)
    from other [OF kv] show False
    proof
      assume "kv = (n, new)"
      with eq d show False by simp
    next
      assume "kv \<in> set tools' \<and> fst kv \<noteq> n"
      with names [of kv] eq oldname show False by simp
    qed
  qed
  have gone: "old \<noteq> new \<Longrightarrow> old \<notin> snd ` set (dict_set n new tools')"
  proof
    assume d: "old \<noteq> new" and "old \<in> snd ` set (dict_set n new tools')"
    then obtain kv where kv: "kv \<in> set (dict_set n new tools')" and eq: "old = snd kv"
      by auto
    from other [OF kv] show False
    proof
      assume "kv = (n, new)"
      with eq d show False by simp
    next
      assume "kv \<in> set tools' \<and> fst kv \<noteq> n"
      with names [of kv] eq oldname show False by simp
    qed
  qed
  have newdef: "get_tool_definition new
           \<in> set (ToolManager_get_tool_definitions get_tool_definition (dict_set n new tools'))"
    using dict_set_mem [of n new tools']
    by (force simp: ToolManager_get_tool_definitions_def)
  have inplace:
    "ToolManager_get_tool_definitions get_tool_definition (dict_set n new tools')
       = map (\<lambda>d. if name d = Some n then get_tool_definition new else d)
           (ToolManager_get_tool_definitions get_tool_definition tools')"
    unfolding ToolManager_get_tool_definitions_def
    using names dist key nm by (rule dict_set_definitions)
  have same: "get_tool_definition old = get_tool_definition new \<Longrightarrow>
      ToolManager_get_tool_definitions get_tool_definition (dict_set n new tools')
        = ToolManager_get_tool_definitions get_tool_definition tools'"
  proof -
    assume eq: "get_tool_definition old = get_tool_definition new"
    have "map (\<lambda>d. if name d = Some n then get_tool_definition new else d)
            (map (\<lambda>kv. get_tool_definition (snd kv)) tools')
          = map (\<lambda>kv. get_tool_definition (snd kv)) tools'"
      using names dist old eq by (rule same_definition_unchanged)
    with inplace show ?thesis by (simp add: ToolManager_get_tool_definitions_def)
  qed
  have base: "ToolManager_register_tool get_tool_definition tools' new
                = Inr (dict_set n new tools')
       \<and> map_of (dict_set n new tools') n = Some new
       \<and> length (filter (\<lambda>kv. fst kv = n) (dict_set n new tools')) = 1
       \<and> map fst (dict_set n new tools') = map fst tools'
       \<and> length (ToolManager_get_tool_definitions get_tool_definition (dict_set n new tools'))
           = length (ToolManager_get_tool_definitions get_tool_definition tools')"
    using nm ne dict_set_lookup [of n new tools'] dict_set_one [OF dist, of n new]
      dict_set_keys [OF key, of new] dict_set_length [OF key, of new]
    by (simp add: ToolManager_register_tool_def ToolManager_get_tool_definitions_def)
  from base newdef gone_def gone inplace same show ?thesis by blast
qed

lemma registry_ok_empty: "registry_ok get_tool_definition []"
  by (simp add: registry_ok_def)

lemma dict_set_keys_new:
  "k \<notin> fst ` set ts \<Longrightarrow> map fst (dict_set k v ts) = map fst ts @ [k]"
  by (induction ts) auto

lemma registry_ok_register:
  assumes ok: "registry_ok get_tool_definition ts"
      and reg: "ToolManager_register_tool get_tool_definition ts tool = Inr ts'"
  shows "registry_ok get_tool_definition ts'"
proof -
  from reg obtain n where n: "name (get_tool_definition tool) = Some n"
    and ts': "ts' = dict_set n tool ts"
    by (cases "name (get_tool_definition tool)")
       (auto simp: ToolManager_register_tool_def Let_def split: if_splits)
  have dist: "distinct (map fst ts)"
    and names: "\<And>kv. kv \<in> set ts \<Longrightarrow> name (get_tool_definition (snd kv)) = Some (fst kv)"
    using ok by (auto simp: registry_ok_def list_all_iff)
  have d': "distinct (map fst ts')"
  proof (cases "n \<in> fst ` set ts")
    case True
    then show ?thesis using dist dict_set_keys [of n ts tool] ts' by simp
  next
    case False
    then show ?thesis using dist dict_set_keys_new [of n ts tool] ts' by simp
  qed
  have "\<And>kv. kv \<in> set ts' \<Longrightarrow> name (get_tool_definition (snd kv)) = Some (fst kv)"
    using dict_set_other [OF dist, of _ n tool] names n ts' by fastforce
  with d' show ?thesis by (simp add: registry_ok_def list_all_iff)
qed

theorem register_replaces_same_name_witness:
  "registry_ok demo_tool_definition demo_registry
   \<and> name (demo_tool_definition second_search_tool) = Some ''search_course_content''
   \<and> map_of demo_registry ''search_course_content''
       = Some (CourseSearchTool_get_tool_definition, ''first'')
   \<and> ToolManager_register_tool demo_tool_definition demo_registry second_search_tool
       = Inr [(''search_course_content'', second_search_tool),
              (''get_course_outline'', (CourseOutlineTool_get_tool_definition, ''outline''))]
   \<and> CourseSearchTool_get_tool_definition
       \<notin> set (ToolManager_get_tool_definitions demo_tool_definition
                 (dict_set ''search_course_content'' second_search_tool demo_registry))"
proof -
  have ok: "registry_ok demo_tool_definition demo_registry"
    by (simp add: registry_ok_def demo_registry_def demo_tool_definition_def
        CourseSearchTool_get_tool_definition_def CourseOutlineTool_get_tool_definition_def)
  have nm: "name (demo_tool_definition second_search_tool) = Some ''search_course_content''"
    by (simp add: demo_tool_definition_def second_search_tool_def
        CourseSearchTool_get_tool_definition_def)
  have old: "map_of demo_registry ''search_course_content''
       = Some (CourseSearchTool_get_tool_definition, ''first'')"
    by (simp add: demo_registry_def)
  have diff: "demo_tool_definition (CourseSearchTool_get_tool_definition, ''first'')
                \<noteq> demo_tool_definition second_search_tool"
    by (simp add: demo_tool_definition_def second_search_tool_def
        CourseSearchTool_get_tool_definition_def)
  have set: "dict_set ''search_course_content'' second_search_tool demo_registry
      = [(''search_course_content'', second_search_tool),
         (''get_course_outline'', (CourseOutlineTool_get_tool_definition, ''outline''))]"
    by (simp add: demo_registry_def)
  have ne: "''search_course_content'' \<noteq> []"
    by simp
  note replaced = register_replaces_same_name [OF ok nm ne old]
  from replaced have reg:
    "ToolManager_register_tool demo_tool_definition demo_registry second_search_tool
       = Inr (dict_set ''search_course_content'' second_search_tool demo_registry)"
    by blast
  from replaced diff have gone:
    "demo_tool_definition (CourseSearchTool_get_tool_definition, ''first'')
       \<notin> set (ToolManager_get_tool_definitions demo_tool_definition
                 (dict_set ''search_course_content'' second_search_tool demo_registry))"
    by blast
  have first: "demo_tool_definition (CourseSearchTool_get_tool_definition, ''first'')
                 = CourseSearchTool_get_tool_definition"
    by (simp add: demo_tool_definition_def)
  from ok nm old reg gone show ?thesis
    unfolding first set by simp
qed

text \<open>
  C9 as stated fails in its last clause: registering a second instance of the search
  tool, whose definition is that of the first, replaces the tool, and the list of
  definitions still contains the earlier tool's definition (it is the list as before).
\<close>

theorem register_same_definition_counterexample:
  "map_of demo_registry ''search_course_content''
     = Some (CourseSearchTool_get_tool_definition, ''first'')
   \<and> ToolManager_register_tool demo_tool_definition demo_registry duplicate_search_tool
       = Inr [(''search_course_content'', duplicate_search_tool),
              (''get_course_outline'', (CourseOutlineTool_get_tool_definition, ''outline''))]
   \<and> demo_tool_definition (CourseSearchTool_get_tool_definition, ''first'')
       \<in> set (ToolManager_get_tool_definitions demo_tool_definition
                 [(''search_course_content'', duplicate_search_tool),
                  (''get_course_outline'',
                   (CourseOutlineTool_get_tool_definition, ''outline''))])
   \<and> ToolManager_get_tool_definitions demo_tool_definition
         [(''search_course_content'', duplicate_search_tool),
          (''get_course_outline'', (CourseOutlineTool_get_tool_definition, ''outline''))]
       = ToolManager_get_tool_definitions demo_tool_definition demo_registry"
  by (simp add: demo_registry_def ToolManager_register_tool_def
      ToolManager_get_tool_definitions_def demo_tool_definition_def duplicate_search_tool_def
      CourseSearchTool_get_tool_definition_def Let_def)


section \<open>CourseOutlineTool\<close>


lemma str_nat_Suc_0: "str_nat (Suc 0) = ''1''"
  by code_simp


text \<open>
  C8. With the stored metadata of the spec's example and a backend that resolves
  "Intro" to that course, \<^verbatim>\<open>CourseOutlineTool.execute("Intro")\<close> returns the outline
  text, which contains the title line, the course link, the lesson count and the lesson
  line, and the tool's \<^verbatim>\<open>last_sources\<close> is the one citation of the course.
  \<open>json_loads\<close> is any decoder that reads the example text as \<^verbatim>\<open>json.loads\<close> does.
\<close>

theorem outline_example:
  assumes res: "resolve_course_name st ''Intro'' = Some cid" and cid: "cid \<noteq> []"
      and cat: "course_catalog_get st cid = Inr (Some \<lparr>metadatas = Some [Some example_metadata]\<rparr>)"
      and js: "json_loads lessons_json_example = Some example_lessons"
  shows "CourseOutlineTool_execute json_loads repr_str st ls ''Intro''
           = (Inr ''**Intro to X**\<newline>Course Link: http://x\<newline>\<newline>**Lessons (1 total):**\<newline>  1. Basics'',
              [\<lparr>title = ''Intro to X'', url = Some ''http://x''\<rparr>])
       \<and> (\<exists>text. fst (CourseOutlineTool_execute json_loads repr_str st ls ''Intro'') = Inr text
             \<and> contains ''**Intro to X**'' text
             \<and> contains ''Course Link: http://x'' text
             \<and> contains ''**Lessons (1 total):**'' text
             \<and> contains ''1. Basics'' text)
       \<and> snd (CourseOutlineTool_execute json_loads repr_str st ls ''Intro'')
           = [\<lparr>title = ''Intro to X'', url = Some ''http://x''\<rparr>]"
proof -
  have ex: "CourseOutlineTool_execute json_loads repr_str st ls ''Intro''
           = (Inr ''**Intro to X**\<newline>Course Link: http://x\<newline>\<newline>**Lessons (1 total):**\<newline>  1. Basics'',
              [\<lparr>title = ''Intro to X'', url = Some ''http://x''\<rparr>])"
    using res cid cat js
    by (simp add: CourseOutlineTool_execute_def first_metadata_def example_metadata_def
        example_lessons_def CourseOutlineTool_format_outline_def py_str_def
        str_nat_Suc_0 str_int_1 Let_def)
  show ?thesis
    unfolding ex by simp
qed

theorem outline_example_witness:
  "CourseOutlineTool_execute example_json_loads (\<lambda>s. s) catalog_store [] ''Intro''
     = (Inr ''**Intro to X**\<newline>Course Link: http://x\<newline>\<newline>**Lessons (1 total):**\<newline>  1. Basics'',
        [\<lparr>title = ''Intro to X'', url = Some ''http://x''\<rparr>])"
  using outline_example [of catalog_store "''Intro to X''" example_json_loads "\<lambda>s. s" "[]"]
  by (simp add: catalog_store_def example_json_loads_def)


section \<open>AIGenerator: the tool loop\<close>


lemma tool_loop_final:
  assumes "\<not> rc < MAX_TOOL_ROUNDS"
  shows "tool_loop create ex sm bp msgs cur rc w =
     (case fst (create (client w) (final_params sm bp msgs)) of
        Inl e \<Rightarrow> Inl e
      | Inr r \<Rightarrow> Inr (AIGenerator_extract_text_response r),
      w\<lparr>client := snd (create (client w) (final_params sm bp msgs)),
        calls := calls w @ [final_params sm bp msgs]\<rparr>)"
  using assms
  by (simp add: tool_loop.simps [of create ex sm bp msgs cur rc w] Let_def final_params_def
      split: sum.splits)

lemma tool_loop_round:
  assumes "rc < MAX_TOOL_ROUNDS"
  shows "tool_loop create ex sm bp msgs cur rc w =
     (case fst (create (client w)
                  (next_params sm bp (round_messages ex msgs cur (manager w)))) of
        Inl e \<Rightarrow>
          (Inl e,
           \<lparr>client = snd (create (client w)
                     (next_params sm bp (round_messages ex msgs cur (manager w)))),
            manager = snd (execute_tools ex (content cur) (manager w)),
            calls = calls w @ [next_params sm bp (round_messages ex msgs cur (manager w))]\<rparr>)
      | Inr r \<Rightarrow>
          if stop_reason r \<noteq> ''tool_use''
          then (Inr (AIGenerator_extract_text_response r),
                \<lparr>client = snd (create (client w)
                     (next_params sm bp (round_messages ex msgs cur (manager w)))),
                 manager = snd (execute_tools ex (content cur) (manager w)),
                 calls = calls w
                   @ [next_params sm bp (round_messages ex msgs cur (manager w))]\<rparr>)
          else tool_loop create ex sm bp (round_messages ex msgs cur (manager w)) r (rc + 1)
                 \<lparr>client = snd (create (client w)
                     (next_params sm bp (round_messages ex msgs cur (manager w)))),
                  manager = snd (execute_tools ex (content cur) (manager w)),
                  calls = calls w
                    @ [next_params sm bp (round_messages ex msgs cur (manager w))]\<rparr>)"
proof (cases "fst (execute_tools ex (content cur) (manager w)) = []")
  case True
  with assms show ?thesis
    by (simp add: tool_loop.simps [of create ex sm bp msgs cur rc w] Let_def
        next_params_def round_messages_def split: sum.splits)
next
  case False
  with assms show ?thesis
    by (simp add: tool_loop.simps [of create ex sm bp msgs cur rc w] Let_def
        next_params_def round_messages_def split: sum.splits)
qed

lemma tools_next_params: "tools (next_params sm bp msgs) \<noteq> None"
  by (simp add: next_params_def)

lemma tools_final_params: "tools (final_params sm bp msgs) = None"
  by (simp add: final_params_def AIGenerator_base_params_def)

text \<open>Whatever the model service answers, the loop sends at most the remaining rounds
  plus one requests, and at least one.\<close>

lemma tool_loop_calls_bound:
  "MAX_TOOL_ROUNDS - rc = k \<Longrightarrow>
     \<exists>new. calls (snd (tool_loop create ex sm bp msgs cur rc w)) = calls w @ new
         \<and> new \<noteq> [] \<and> length new \<le> k + 1"
proof (induction k arbitrary: rc msgs cur w)
  case 0
  then have "\<not> rc < MAX_TOOL_ROUNDS" by simp
  then show ?case by (simp add: tool_loop_final)
next
  case (Suc k)
  then have lt: "rc < MAX_TOOL_ROUNDS" and k: "MAX_TOOL_ROUNDS - (rc + 1) = k" by simp_all
  let ?np = "next_params sm bp (round_messages ex msgs cur (manager w))"
  let ?w1 = "\<lparr>client = snd (create (client w) ?np),
              manager = snd (execute_tools ex (content cur) (manager w)),
              calls = calls w @ [?np]\<rparr>"
  show ?case
  proof (cases "fst (create (client w) ?np)")
    case (Inl e)
    then show ?thesis by (simp add: tool_loop_round [OF lt])
  next
    case (Inr r)
    show ?thesis
    proof (cases "stop_reason r = ''tool_use''")
      case False
      with Inr show ?thesis by (simp add: tool_loop_round [OF lt])
    next
      case True
      from Suc.IH [OF k, of "round_messages ex msgs cur (manager w)" r ?w1]
      obtain new where
        "calls (snd (tool_loop create ex sm bp (round_messages ex msgs cur (manager w)) r
                       (rc + 1) ?w1)) = calls ?w1 @ new"
        and "new \<noteq> []" and "length new \<le> k + 1"
        by blast
      with Inr True show ?thesis
        by (intro exI [of _ "?np # new"]) (simp add: tool_loop_round [OF lt])
    qed
  qed
qed

text \<open>A model service that never raises gets a text back from the loop.\<close>

lemma tool_loop_returns_text:
  assumes total: "\<And>c p. \<exists>r c'. create c p = (Inr r, c')"
  shows "MAX_TOOL_ROUNDS - rc = k \<Longrightarrow>
     \<exists>text. fst (tool_loop create ex sm bp msgs cur rc w) = Inr text"
proof (induction k arbitrary: rc msgs cur w)
  case 0
  then have nlt: "\<not> rc < MAX_TOOL_ROUNDS" by simp
  from total obtain r c' where "create (client w) (final_params sm bp msgs) = (Inr r, c')"
    by blast
  then show ?case by (simp add: tool_loop_final [OF nlt])
next
  case (Suc k)
  then have lt: "rc < MAX_TOOL_ROUNDS" and k: "MAX_TOOL_ROUNDS - (rc + 1) = k" by simp_all
  let ?np = "next_params sm bp (round_messages ex msgs cur (manager w))"
  from total obtain r c' where r: "create (client w) ?np = (Inr r, c')" by blast
  show ?case
  proof (cases "stop_reason r = ''tool_use''")
    case False
    with r show ?thesis by (simp add: tool_loop_round [OF lt])
  next
    case True
    with r Suc.IH [OF k] show ?thesis by (simp add: tool_loop_round [OF lt])
  qed
qed

text \<open>A model service that asks for a tool on every call drives the loop through all
  its rounds and into the final request.\<close>

lemma tool_loop_forced:
  assumes H: "\<And>c p. \<exists>r c'. create c p = (Inr r, c') \<and> stop_reason r = ''tool_use''"
  shows "MAX_TOOL_ROUNDS - rc = k \<Longrightarrow>
    \<exists>new c0 resp.
       calls (snd (tool_loop create ex sm bp msgs cur rc w)) = calls w @ new
     \<and> length new = k + 1
     \<and> tools (last new) = None
     \<and> (\<forall>p \<in> set (butlast new). tools p \<noteq> None)
     \<and> create c0 (last new)
         = (Inr resp, client (snd (tool_loop create ex sm bp msgs cur rc w)))
     \<and> fst (tool_loop create ex sm bp msgs cur rc w)
         = Inr (AIGenerator_extract_text_response resp)"
proof (induction k arbitrary: rc msgs cur w)
  case 0
  then have nlt: "\<not> rc < MAX_TOOL_ROUNDS" by simp
  from H obtain r c' where r: "create (client w) (final_params sm bp msgs) = (Inr r, c')"
    by blast
  then show ?case
    by (intro exI [of _ "[final_params sm bp msgs]"] exI [of _ "client w"] exI [of _ r])
       (simp add: tool_loop_final [OF nlt] tools_final_params)
next
  case (Suc k)
  then have lt: "rc < MAX_TOOL_ROUNDS" and k: "MAX_TOOL_ROUNDS - (rc + 1) = k" by simp_all
  let ?msgs = "round_messages ex msgs cur (manager w)"
  let ?np = "next_params sm bp ?msgs"
  from H obtain r c' where r: "create (client w) ?np = (Inr r, c')"
    and tu: "stop_reason r = ''tool_use''" by blast
  let ?w1 = "\<lparr>client = c', manager = snd (execute_tools ex (content cur) (manager w)),
              calls = calls w @ [?np]\<rparr>"
  have eq: "tool_loop create ex sm bp msgs cur rc w
      = tool_loop create ex sm bp ?msgs r (rc + 1) ?w1"
    using r tu by (simp add: tool_loop_round [OF lt])
  from Suc.IH [OF k, of ?msgs r ?w1] obtain new c0 resp where
    new: "calls (snd (tool_loop create ex sm bp ?msgs r (rc + 1) ?w1)) = calls ?w1 @ new"
    and len: "length new = k + 1"
    and last: "tools (last new) = None"
    and adv: "\<forall>p \<in> set (butlast new). tools p \<noteq> None"
    and cr: "create c0 (last new)
        = (Inr resp, client (snd (tool_loop create ex sm bp ?msgs r (rc + 1) ?w1)))"
    and res: "fst (tool_loop create ex sm bp ?msgs r (rc + 1) ?w1)
        = Inr (AIGenerator_extract_text_response resp)"
    by blast
  have ne: "new \<noteq> []" using len by auto
  show ?case
    using new len last adv cr res ne tools_next_params [of sm bp ?msgs]
    by (intro exI [of _ "?np # new"] exI [of _ c0] exI [of _ resp]) (simp add: eq)
qed

text \<open>The first request of the loop carries the messages of the first round.\<close>

lemma tool_loop_first_call:
  assumes lt: "rc < MAX_TOOL_ROUNDS"
  shows "\<exists>rest. calls (snd (tool_loop create ex sm bp msgs cur rc w))
           = calls w @ next_params sm bp (round_messages ex msgs cur (manager w)) # rest"
proof -
  let ?msgs = "round_messages ex msgs cur (manager w)"
  let ?np = "next_params sm bp ?msgs"
  let ?w1 = "\<lparr>client = snd (create (client w) ?np),
              manager = snd (execute_tools ex (content cur) (manager w)),
              calls = calls w @ [?np]\<rparr>"
  show ?thesis
  proof (cases "fst (create (client w) ?np)")
    case (Inl e)
    then show ?thesis by (simp add: tool_loop_round [OF lt])
  next
    case (Inr r)
    show ?thesis
    proof (cases "stop_reason r = ''tool_use''")
      case False
      with Inr show ?thesis by (simp add: tool_loop_round [OF lt])
    next
      case True
      from tool_loop_calls_bound [OF refl, where rc = "rc + 1" and create = create and ex = ex
          and sm = sm and bp = bp and msgs = ?msgs and cur = r and w = ?w1]
      obtain new where
        "calls (snd (tool_loop create ex sm bp ?msgs r (rc + 1) ?w1)) = calls ?w1 @ new"
        by blast
      with Inr True show ?thesis by (simp add: tool_loop_round [OF lt])
    qed
  qed
qed

text \<open>Text extraction: the first text block, the empty string without one.\<close>

lemma extract_text_none: "\<not> list_ex is_text bs \<Longrightarrow> extract_text bs = []"
  by (induction bs rule: extract_text.induct) simp_all

lemma extract_text_first:
  "\<not> list_ex is_text pre \<Longrightarrow> extract_text (pre @ TextBlock t # post) = t"
  by (induction pre rule: extract_text.induct) simp_all



lemma max_rounds_pos: "0 < MAX_TOOL_ROUNDS"
  by (simp add: MAX_TOOL_ROUNDS_def)

lemma execute_tools_filter:
  "execute_tools ex bs tm = execute_tools ex (filter is_tool_use bs) tm"
  by (induction ex bs tm rule: execute_tools.induct) (simp_all add: Let_def)

text \<open>
  C1. When every response of the model service requests a tool, the tool loop
  (\<^verbatim>\<open>_handle_tool_execution\<close>) terminates after exactly \<open>MAX_TOOL_ROUNDS + 1\<close> requests
  of its own: one after each round, with tools advertised, and a final one that has no
  \<^verbatim>\<open>tools\<close> key, whose extracted text is the value returned. The second part says the
  same of \<^verbatim>\<open>generate_response\<close>, whose requests are the one that received the first
  tool request followed by those of the loop.
\<close>

theorem tool_loop_round_bound:
  assumes H: "\<And>c p. \<exists>r c'. create c p = (Inr r, c') \<and> requests_tool r"
  shows "(\<exists>new c0 resp.
            calls (snd (AIGenerator_handle_tool_execution create ex sm initial bp w))
              = calls w @ new
          \<and> length new = MAX_TOOL_ROUNDS + 1
          \<and> tools (last new) = None
          \<and> (\<forall>p \<in> set (butlast new). tools p \<noteq> None)
          \<and> create c0 (last new)
              = (Inr resp, client (snd (AIGenerator_handle_tool_execution create ex sm
                                          initial bp w)))
          \<and> fst (AIGenerator_handle_tool_execution create ex sm initial bp w)
              = Inr (AIGenerator_extract_text_response resp))
       \<and> (\<exists>first new c0 resp.
            calls (snd (AIGenerator_generate_response create ex sm c q h ts (Some tm)))
              = first # new
          \<and> length new = MAX_TOOL_ROUNDS + 1
          \<and> tools (last new) = None
          \<and> create c0 (last new)
              = (Inr resp, client (snd (AIGenerator_generate_response create ex sm c q h ts
                                          (Some tm))))
          \<and> fst (AIGenerator_generate_response create ex sm c q h ts (Some tm))
              = Inr (AIGenerator_extract_text_response resp))"
proof -
  have H': "\<And>c p. \<exists>r c'. create c p = (Inr r, c') \<and> stop_reason r = ''tool_use''"
    using H by (meson requests_tool_def)
  have loop: "\<And>msgs cur w'. \<exists>new c0 resp.
       calls (snd (tool_loop create ex sm bp' msgs cur 0 w')) = calls w' @ new
     \<and> length new = MAX_TOOL_ROUNDS + 1
     \<and> tools (last new) = None
     \<and> (\<forall>p \<in> set (butlast new). tools p \<noteq> None)
     \<and> create c0 (last new) = (Inr resp, client (snd (tool_loop create ex sm bp' msgs cur 0 w')))
     \<and> fst (tool_loop create ex sm bp' msgs cur 0 w')
         = Inr (AIGenerator_extract_text_response resp)" for bp'
    using tool_loop_forced [OF H', where rc = 0 and k = MAX_TOOL_ROUNDS] by simp
  have part1: "\<exists>new c0 resp.
            calls (snd (AIGenerator_handle_tool_execution create ex sm initial bp w))
              = calls w @ new
          \<and> length new = MAX_TOOL_ROUNDS + 1
          \<and> tools (last new) = None
          \<and> (\<forall>p \<in> set (butlast new). tools p \<noteq> None)
          \<and> create c0 (last new)
              = (Inr resp, client (snd (AIGenerator_handle_tool_execution create ex sm
                                          initial bp w)))
          \<and> fst (AIGenerator_handle_tool_execution create ex sm initial bp w)
              = Inr (AIGenerator_extract_text_response resp)"
    unfolding AIGenerator_handle_tool_execution_def by (rule loop)
  define ap where "ap = (let api_params = (AIGenerator_base_params sm)
            \<lparr>messages := [\<lparr>role = ''user'', msg_content = Text q\<rparr>],
             system := (if truthy_str h
             then SYSTEM_PROMPT @ ''\<newline>\<newline>Previous conversation:\<newline>'' @ the h
             else SYSTEM_PROMPT)\<rparr>
        in if ts \<noteq> None \<and> ts \<noteq> Some []
           then api_params\<lparr>tools := ts, tool_choice := Some ''auto''\<rparr> else api_params)"
  from H' obtain r c' where r: "create c ap = (Inr r, c')" and tu: "stop_reason r = ''tool_use''"
    by blast
  let ?w0 = "\<lparr>client = c', manager = tm, calls = [ap]\<rparr>"
  have gen: "AIGenerator_generate_response create ex sm c q h ts (Some tm)
      = (fst (tool_loop create ex sm ap (messages ap) r 0 ?w0),
         \<lparr>client = client (snd (tool_loop create ex sm ap (messages ap) r 0 ?w0)),
          manager = Some (manager (snd (tool_loop create ex sm ap (messages ap) r 0 ?w0))),
          calls = calls (snd (tool_loop create ex sm ap (messages ap) r 0 ?w0))\<rparr>)"
    using r tu
    by (simp add: AIGenerator_generate_response_def AIGenerator_handle_tool_execution_def
        Let_def ap_def)
  from loop [of ap "messages ap" r ?w0] obtain new c0 resp where
    "calls (snd (tool_loop create ex sm ap (messages ap) r 0 ?w0)) = calls ?w0 @ new"
    "length new = MAX_TOOL_ROUNDS + 1" "tools (last new) = None"
    "create c0 (last new) = (Inr resp, client (snd (tool_loop create ex sm ap (messages ap) r 0 ?w0)))"
    "fst (tool_loop create ex sm ap (messages ap) r 0 ?w0)
         = Inr (AIGenerator_extract_text_response resp)"
    by blast
  then have part2: "\<exists>first new c0 resp.
            calls (snd (AIGenerator_generate_response create ex sm c q h ts (Some tm)))
              = first # new
          \<and> length new = MAX_TOOL_ROUNDS + 1
          \<and> tools (last new) = None
          \<and> create c0 (last new)
              = (Inr resp, client (snd (AIGenerator_generate_response create ex sm c q h ts
                                          (Some tm))))
          \<and> fst (AIGenerator_generate_response create ex sm c q h ts (Some tm))
              = Inr (AIGenerator_extract_text_response resp)"
    by (intro exI [of _ ap] exI [of _ new] exI [of _ c0] exI [of _ resp]) (simp add: gen)
  from part1 part2 show ?thesis by blast
qed


lemma greedy_requests_tool: "requests_tool greedy_response"
  by (simp add: requests_tool_def greedy_response_def)

theorem tool_loop_round_bound_witness:
  "(\<forall>c p. \<exists>r c'. greedy_create c p = (Inr r, c') \<and> requests_tool r)
   \<and> length (calls (snd (AIGenerator_handle_tool_execution greedy_create flaky_execute_tool
                           ''claude'' greedy_response demo_params demo_world)))
       = length (calls demo_world) + 3
   \<and> tools (last (calls (snd (AIGenerator_handle_tool_execution greedy_create
                                 flaky_execute_tool ''claude'' greedy_response demo_params
                                 demo_world)))) = None
   \<and> fst (AIGenerator_handle_tool_execution greedy_create flaky_execute_tool ''claude''
            greedy_response demo_params demo_world) = Inr ''Still searching.''
   \<and> length (calls (snd (AIGenerator_generate_response greedy_create flaky_execute_tool
                           ''claude'' 0 ''What is a variable?'' None
                           (Some [CourseSearchTool_get_tool_definition]) (Some ())))) = 4"
proof -
  have H: "\<And>c p. \<exists>r c'. greedy_create c p = (Inr r, c') \<and> requests_tool r"
    by (simp add: greedy_create_def greedy_requests_tool)
  have ex: "AIGenerator_extract_text_response greedy_response = ''Still searching.''"
    by (simp add: AIGenerator_extract_text_response_def greedy_response_def)
  from tool_loop_round_bound [where create = greedy_create and ex = flaky_execute_tool
      and sm = "''claude''" and initial = greedy_response and bp = demo_params
      and w = demo_world and c = 0 and q = "''What is a variable?''" and h = None
      and ts = "Some [CourseSearchTool_get_tool_definition]" and tm = "()", OF H]
  show ?thesis
    using H by (auto simp: greedy_create_def ex MAX_TOOL_ROUNDS_def demo_world_def)
qed

text \<open>
  C2. The claim: for every well-formed response the generation returns a string, the
  empty one when the response has no text block, on the direct path as in the tool loop.
  The code, on the direct path: a response without content raises IndexError, and a
  response that starts with a tool-call block (returned directly when there is no tool
  manager) raises AttributeError, where \<^verbatim>\<open>_extract_text_response\<close> gives the empty
  string and the text block.
\<close>

theorem direct_return_raises:
  "fst (AIGenerator_generate_response empty_create flaky_execute_tool ''claude'' 0
          ''What is a variable?'' None (Some [CourseSearchTool_get_tool_definition]) (Some ()))
     = Inl (Exn ''IndexError'' ''list index out of range'')
   \<and> AIGenerator_extract_text_response empty_response = []
   \<and> fst (AIGenerator_generate_response greedy_create flaky_execute_tool ''claude'' 0
          ''What is a variable?'' None (Some [CourseSearchTool_get_tool_definition]) None)
     = Inl (Exn ''AttributeError'' no_text_attribute)
   \<and> AIGenerator_extract_text_response greedy_response = ''Still searching.''"
  by (simp add: AIGenerator_generate_response_def empty_create_def empty_response_def
      greedy_create_def greedy_response_def first_block_text_def
      AIGenerator_extract_text_response_def Let_def)


text \<open>
  C5. A round with two tool-call blocks, where executing the first raises and
  executing the second succeeds: both results are produced, in emission order, the first
  with the text "Tool execution failed: " and the message of the exception; the next
  request of the loop carries them in one user message after the assistant message; and
  the loop goes on to return a text whenever the model service itself does not raise.
\<close>

theorem tool_fault_isolated:
  assumes two: "filter is_tool_use (content cur)
                  = [ToolUseBlock i1 n1 in1, ToolUseBlock i2 n2 in2]"
      and raise1: "execute_tool (manager w) n1 in1 = (Inl e, tm1)"
      and ok2: "execute_tool tm1 n2 in2 = (Inr r2, tm2)"
  shows "execute_tools execute_tool (content cur) (manager w)
           = ([\<lparr>tool_use_id = i1,
                result_content = ''Tool execution failed: '' @ exn_str e\<rparr>,
               \<lparr>tool_use_id = i2, result_content = r2\<rparr>], tm2)
       \<and> starts_with ''Tool execution failed:'' (''Tool execution failed: '' @ exn_str e)
       \<and> (\<exists>rest.
             calls (snd (AIGenerator_handle_tool_execution create execute_tool sm cur bp w))
               = calls w
                 @ next_params sm bp
                     (messages bp
                      @ [\<lparr>role = ''assistant'', msg_content = Blocks (content cur)\<rparr>,
                         \<lparr>role = ''user'',
                          msg_content = ToolResults
                            [\<lparr>tool_use_id = i1,
                              result_content = ''Tool execution failed: '' @ exn_str e\<rparr>,
                             \<lparr>tool_use_id = i2, result_content = r2\<rparr>]\<rparr>])
                 # rest)
       \<and> ((\<forall>c p. \<exists>r c'. create c p = (Inr r, c')) \<longrightarrow>
            (\<exists>text. fst (AIGenerator_handle_tool_execution create execute_tool sm cur bp w)
                      = Inr text))"
proof -
  have ex: "execute_tools execute_tool (content cur) (manager w)
           = ([\<lparr>tool_use_id = i1,
                result_content = ''Tool execution failed: '' @ exn_str e\<rparr>,
               \<lparr>tool_use_id = i2, result_content = r2\<rparr>], tm2)"
    using raise1 ok2
    by (simp add: execute_tools_filter [of execute_tool "content cur"] two Let_def)
  have msgs: "round_messages execute_tool (messages bp) cur (manager w)
      = messages bp
          @ [\<lparr>role = ''assistant'', msg_content = Blocks (content cur)\<rparr>,
             \<lparr>role = ''user'',
              msg_content = ToolResults
                [\<lparr>tool_use_id = i1,
                  result_content = ''Tool execution failed: '' @ exn_str e\<rparr>,
                 \<lparr>tool_use_id = i2, result_content = r2\<rparr>]\<rparr>]"
    by (simp add: round_messages_def ex)
  have first: "\<exists>rest.
      calls (snd (AIGenerator_handle_tool_execution create execute_tool sm cur bp w))
        = calls w @ next_params sm bp (round_messages execute_tool (messages bp) cur (manager w))
            # rest"
    unfolding AIGenerator_handle_tool_execution_def
    by (rule tool_loop_first_call [OF max_rounds_pos])
  have total: "(\<forall>c p. \<exists>r c'. create c p = (Inr r, c')) \<longrightarrow>
            (\<exists>text. fst (AIGenerator_handle_tool_execution create execute_tool sm cur bp w)
                      = Inr text)"
  proof
    assume "\<forall>c p. \<exists>r c'. create c p = (Inr r, c')"
    then have t: "\<And>c p. \<exists>r c'. create c p = (Inr r, c')" by blast
    show "\<exists>text. fst (AIGenerator_handle_tool_execution create execute_tool sm cur bp w)
                      = Inr text"
      unfolding AIGenerator_handle_tool_execution_def
      by (rule tool_loop_returns_text [OF t, where rc = 0 and k = MAX_TOOL_ROUNDS]) simp
  qed
  have pre: "starts_with ''Tool execution failed:'' (''Tool execution failed: '' @ exn_str e)"
    by simp
  from ex first total pre show ?thesis
    unfolding msgs by blast
qed

theorem tool_fault_isolated_witness:
  "filter is_tool_use (content two_calls_response)
     = [ToolUseBlock ''toolu_1'' ''broken'' [],
        ToolUseBlock ''toolu_2'' ''get_course_outline'' [(''course_title'', PStr ''Intro'')]]
   \<and> flaky_execute_tool () ''broken'' [] = (Inl (Exn ''RuntimeError'' ''backend down''), ())
   \<and> flaky_execute_tool () ''get_course_outline'' [(''course_title'', PStr ''Intro'')]
       = (Inr ''result of get_course_outline'', ())
   \<and> execute_tools flaky_execute_tool (content two_calls_response) ()
       = ([\<lparr>tool_use_id = ''toolu_1'',
            result_content = ''Tool execution failed: backend down''\<rparr>,
           \<lparr>tool_use_id = ''toolu_2'', result_content = ''result of get_course_outline''\<rparr>],
          ())
   \<and> fst (AIGenerator_handle_tool_execution final_create flaky_execute_tool ''claude''
            two_calls_response demo_params demo_world) = Inr ''Done.''"
proof -
  have two: "filter is_tool_use (content two_calls_response)
     = [ToolUseBlock ''toolu_1'' ''broken'' [],
        ToolUseBlock ''toolu_2'' ''get_course_outline'' [(''course_title'', PStr ''Intro'')]]"
    by (simp add: two_calls_response_def)
  have r1: "flaky_execute_tool (manager demo_world) ''broken'' []
      = (Inl (Exn ''RuntimeError'' ''backend down''), ())"
    by (simp add: flaky_execute_tool_def)
  have r2: "flaky_execute_tool () ''get_course_outline'' [(''course_title'', PStr ''Intro'')]
       = (Inr ''result of get_course_outline'', ())"
    by (simp add: flaky_execute_tool_def)
  have total: "\<forall>c p. \<exists>r c'. final_create c p = (Inr r, c')"
    by (simp add: final_create_def)
  have res: "fst (AIGenerator_handle_tool_execution final_create flaky_execute_tool ''claude''
            two_calls_response demo_params demo_world) = Inr ''Done.''"
    by (simp add: AIGenerator_handle_tool_execution_def tool_loop_round [OF max_rounds_pos]
        final_create_def final_response_def AIGenerator_extract_text_response_def)
  from tool_fault_isolated [where cur = two_calls_response and execute_tool = flaky_execute_tool
      and w = demo_world and create = final_create and sm = "''claude''" and bp = demo_params,
      OF two r1 r2]
  show ?thesis
    using two r1 r2 total res by simp
qed

end
